theory Spec2Isabelle
  imports Complex_Main
begin

section \<open>JavaScript numbers\<close>

text \<open>
  The program computes with JavaScript numbers. They are modelled as exact real numbers
  extended by the three special values of IEEE arithmetic: \<open>Infinity\<close>, \<open>-Infinity\<close> and
  \<open>NaN\<close>. A division by zero and a square root of a negative number therefore give what
  JavaScript gives (an infinity or \<open>NaN\<close>), and every comparison with \<open>NaN\<close> is false.
  Rounding, overflow and the sign of zero are not modelled: a finite result is the exact
  real result, and a zero divisor counts as \<open>+0\<close>.
\<close>

datatype jsnum = Fin real | PInf | NInf | NaN

fun jneg :: "jsnum \<Rightarrow> jsnum" where
  "jneg (Fin a) = Fin (- a)"
| "jneg PInf = NInf"
| "jneg NInf = PInf"
| "jneg NaN = NaN"

fun jadd :: "jsnum \<Rightarrow> jsnum \<Rightarrow> jsnum" where
  "jadd (Fin a) (Fin b) = Fin (a + b)"
| "jadd NaN _ = NaN"
| "jadd _ NaN = NaN"
| "jadd PInf NInf = NaN"
| "jadd NInf PInf = NaN"
| "jadd PInf _ = PInf"
| "jadd _ PInf = PInf"
| "jadd NInf _ = NInf"
| "jadd _ NInf = NInf"

text \<open>The sign of a product or quotient with an infinite operand.\<close>

definition signed_inf :: "bool \<Rightarrow> jsnum" where
  "signed_inf positive = (if positive then PInf else NInf)"

fun jmul :: "jsnum \<Rightarrow> jsnum \<Rightarrow> jsnum" where
  "jmul (Fin a) (Fin b) = Fin (a * b)"
| "jmul NaN _ = NaN"
| "jmul _ NaN = NaN"
| "jmul (Fin a) PInf = (if a = 0 then NaN else signed_inf (0 < a))"
| "jmul (Fin a) NInf = (if a = 0 then NaN else signed_inf (a < 0))"
| "jmul PInf (Fin b) = (if b = 0 then NaN else signed_inf (0 < b))"
| "jmul NInf (Fin b) = (if b = 0 then NaN else signed_inf (b < 0))"
| "jmul PInf PInf = PInf"
| "jmul PInf NInf = NInf"
| "jmul NInf PInf = NInf"
| "jmul NInf NInf = PInf"

fun jdiv :: "jsnum \<Rightarrow> jsnum \<Rightarrow> jsnum" where
  "jdiv (Fin a) (Fin b) =
     (if b = 0 then (if a = 0 then NaN else signed_inf (0 < a)) else Fin (a / b))"
| "jdiv NaN _ = NaN"
| "jdiv _ NaN = NaN"
| "jdiv (Fin a) PInf = Fin 0"
| "jdiv (Fin a) NInf = Fin 0"
| "jdiv PInf (Fin b) = signed_inf (0 \<le> b)"
| "jdiv NInf (Fin b) = signed_inf (b < 0)"
| "jdiv PInf PInf = NaN"
| "jdiv PInf NInf = NaN"
| "jdiv NInf PInf = NaN"
| "jdiv NInf NInf = NaN"

fun jabs :: "jsnum \<Rightarrow> jsnum" where
  "jabs (Fin a) = Fin \<bar>a\<bar>"
| "jabs PInf = PInf"
| "jabs NInf = PInf"
| "jabs NaN = NaN"

text \<open>\<open>a < b\<close> and \<open>a <= b\<close> of JavaScript: false as soon as an operand is \<open>NaN\<close>.\<close>

fun jlt :: "jsnum \<Rightarrow> jsnum \<Rightarrow> bool" where
  "jlt (Fin a) (Fin b) = (a < b)"
| "jlt NaN _ = False"
| "jlt _ NaN = False"
| "jlt _ NInf = False"
| "jlt PInf _ = False"
| "jlt NInf _ = True"
| "jlt _ PInf = True"

fun jle :: "jsnum \<Rightarrow> jsnum \<Rightarrow> bool" where
  "jle (Fin a) (Fin b) = (a \<le> b)"
| "jle NaN _ = False"
| "jle _ NaN = False"
| "jle NInf _ = True"
| "jle _ PInf = True"
| "jle _ NInf = False"
| "jle PInf _ = False"

instantiation jsnum :: "{zero, one, plus, minus, uminus, times, inverse, abs, ord}"
begin

definition zero_jsnum :: jsnum where
  "zero_jsnum = Fin 0"

definition one_jsnum :: jsnum where
  "one_jsnum = Fin 1"

definition plus_jsnum :: "jsnum \<Rightarrow> jsnum \<Rightarrow> jsnum" where
  "plus_jsnum a b = jadd a b"

definition uminus_jsnum :: "jsnum \<Rightarrow> jsnum" where
  "uminus_jsnum a = jneg a"

definition minus_jsnum :: "jsnum \<Rightarrow> jsnum \<Rightarrow> jsnum" where
  "minus_jsnum a b = jadd a (jneg b)"

definition times_jsnum :: "jsnum \<Rightarrow> jsnum \<Rightarrow> jsnum" where
  "times_jsnum a b = jmul a b"

definition divide_jsnum :: "jsnum \<Rightarrow> jsnum \<Rightarrow> jsnum" where
  "divide_jsnum a b = jdiv a b"

definition inverse_jsnum :: "jsnum \<Rightarrow> jsnum" where
  "inverse_jsnum a = jdiv (Fin 1) a"

definition abs_jsnum :: "jsnum \<Rightarrow> jsnum" where
  "abs_jsnum a = jabs a"

definition less_jsnum :: "jsnum \<Rightarrow> jsnum \<Rightarrow> bool" where
  "less_jsnum a b = jlt a b"

definition less_eq_jsnum :: "jsnum \<Rightarrow> jsnum \<Rightarrow> bool" where
  "less_eq_jsnum a b = jle a b"

instance ..

end

instance jsnum :: semigroup_add
proof
  fix a b c :: jsnum
  show "a + b + c = a + (b + c)"
    by (cases a; cases b; cases c) (simp_all add: plus_jsnum_def)
qed

instance jsnum :: numeral ..

text \<open>\<open>a == b\<close> on numbers (\<open>a != b\<close> is its negation): \<open>NaN\<close> equals nothing.\<close>

definition jeq :: "jsnum \<Rightarrow> jsnum \<Rightarrow> bool" where
  "jeq a b = (a \<noteq> NaN \<and> a = b)"

text \<open>\<open>Math.sqrt\<close>, \<open>Math.floor\<close> and \<open>Math.pow\<close>.\<close>

fun Math_sqrt :: "jsnum \<Rightarrow> jsnum" where
  "Math_sqrt (Fin a) = (if a < 0 then NaN else Fin (sqrt a))"
| "Math_sqrt PInf = PInf"
| "Math_sqrt NInf = NaN"
| "Math_sqrt NaN = NaN"

fun Math_floor :: "jsnum \<Rightarrow> jsnum" where
  "Math_floor (Fin a) = Fin (of_int \<lfloor>a\<rfloor>)"
| "Math_floor v = v"

definition is_integer :: "real \<Rightarrow> bool" where
  "is_integer b = (of_int \<lfloor>b\<rfloor> = b)"

fun Math_pow :: "jsnum \<Rightarrow> jsnum \<Rightarrow> jsnum" where
  "Math_pow _ NaN = NaN"
| "Math_pow v (Fin b) =
     (if b = 0 then Fin 1
      else case v of
        NaN \<Rightarrow> NaN
      | Fin a \<Rightarrow>
          (if 0 < a then Fin (a powr b)
           else if a = 0 then (if 0 < b then Fin 0 else PInf)
           else if is_integer b
             then Fin ((if even \<lfloor>b\<rfloor> then 1 else - 1) * (\<bar>a\<bar> powr b))
           else NaN)
      | PInf \<Rightarrow> (if 0 < b then PInf else Fin 0)
      | NInf \<Rightarrow>
          (if b < 0 then Fin 0
           else if is_integer b \<and> odd \<lfloor>b\<rfloor> then NInf else PInf))"
| "Math_pow v PInf =
     (if jlt (Fin 1) (jabs v) then PInf else if jlt (jabs v) (Fin 1) then Fin 0 else NaN)"
| "Math_pow v NInf =
     (if jlt (Fin 1) (jabs v) then Fin 0 else if jlt (jabs v) (Fin 1) then PInf else NaN)"

text \<open>
  Reading an array beyond its length gives \<open>undefined\<close>, which arithmetic turns into
  \<open>NaN\<close>.
\<close>

definition js_index :: "jsnum list \<Rightarrow> nat \<Rightarrow> jsnum" where
  "js_index vs i = (if i < length vs then vs ! i else NaN)"

text \<open>
  \<open>a < b\<close> on strings: JavaScript compares code unit by code unit, a proper prefix being
  smaller.
\<close>

fun str_lt :: "string \<Rightarrow> string \<Rightarrow> bool" where
  "str_lt _ [] = False"
| "str_lt [] (_ # _) = True"
| "str_lt (a # as) (b # bs) =
     (if a = b then str_lt as bs else (of_char a :: nat) < of_char b)"

section \<open>Geometry values\<close>

record Coord2D =
  x :: jsnum
  y :: jsnum

record Rect2D =
  left :: jsnum
  top' :: jsnum
  right :: jsnum
  bottom :: jsnum

text \<open>
  A shape object as the intersection solvers see it: its type tag \<open>shapeName\<close> and the
  fields they read (\<open>p1\<close>, \<open>p2\<close> of a line; \<open>p1\<close>, \<open>p2\<close>, \<open>p3\<close> of a bezier; \<open>center\<close>,
  \<open>radius\<close> of a circle; \<open>sa\<close>, \<open>da\<close> of an arc; \<open>rx\<close>, \<open>ry\<close>, \<open>xrot\<close>, \<open>coeffs\<close> of an
  elliptical shape; \<open>rect\<close> of a rectangle). The solvers are duck-typed: the solver of a
  circular arc passes the arc to the solver of a circle, which reads its \<open>center\<close> and
  \<open>radius\<close>. Every field holds a value of its type: \<open>coeffs\<close> is an array, empty when the
  ellipse has no conic coefficients (as \<open>pull\<close> leaves it for an ellipse stored without
  them); an object that lacks a field the solver reads is not a shape of the model. This
  leaves out an elliptical shape to which no \<open>coeffs\<close> has been assigned yet (\<open>pull\<close> and
  \<open>projectToQuad\<close> assign it): \<open>EllipticalShape.prototype.initialize\<close> is defined twice in
  \<open>EllipticalShape.js\<close>, and the second definition, the one in force, does not set
  \<open>coeffs\<close>, so that the read of \<open>coeffs.length\<close> fails on such an object.
\<close>

record Shape =
  shapeName :: string
  p1 :: Coord2D
  p2 :: Coord2D
  p3 :: Coord2D
  center :: Coord2D
  radius :: jsnum
  rx :: jsnum
  ry :: jsnum
  xrot :: jsnum
  sa :: jsnum
  da :: jsnum
  coeffs :: "jsnum list"
  rect :: Rect2D

definition Coord2D_new :: "jsnum \<Rightarrow> jsnum \<Rightarrow> Coord2D" where
  "Coord2D_new a b = \<lparr>x = a, y = b\<rparr>"

text \<open>
  A record with the given type tag, zero in every coordinate and number, and an empty
  array of conic coefficients. It is the value from which the shapes of the concrete runs
  below are written, by setting the fields of their type; it is not the constructor of
  any shape class.
\<close>

definition blank_shape :: "string \<Rightarrow> Shape" where
  "blank_shape name =
     \<lparr>shapeName = name,
      p1 = Coord2D_new 0 0, p2 = Coord2D_new 0 0, p3 = Coord2D_new 0 0,
      center = Coord2D_new 0 0, radius = 0, rx = 0, ry = 0, xrot = 0, sa = 0, da = 0,
      coeffs = [], rect = \<lparr>left = 0, top' = 0, right = 0, bottom = 0\<rparr>\<rparr>"

text \<open>
  Modelled from the spec: \<open>Line.fromPoints\<close>, the line segment between two points, by which
  the rectangle solvers build the four sides of a rectangle.
\<close>

definition Line_fromPoints :: "Coord2D \<Rightarrow> Coord2D \<Rightarrow> Shape" where
  "Line_fromPoints a b = (blank_shape ''line'')\<lparr>p1 := a, p2 := b\<rparr>"

section \<open>The library functions the solvers call\<close>

text \<open>
  \<open>Util.js\<close> and \<open>Coord2D.js\<close> are not among the sources. The functions of theirs that the
  code under study calls are parameters of the model, collected in one record that every
  function takes first:
  \<^item> \<open>Util.equals(a, b, tolerance)\<close>, the third argument optional;
  \<^item> \<open>Util.between(n, a, b)\<close>;
  \<^item> \<open>Util.floorToDecimal(n, places)\<close>;
  \<^item> \<open>Util.angleIsBetweenAngles(a, b, c)\<close>;
  \<^item> the methods \<open>p.distanceTo(q)\<close>, \<open>p.angleTo(q)\<close> and \<open>p.isEqual(q)\<close> of \<open>Coord2D\<close>.
  The theorems hold for every such record, under the hypotheses they state.
\<close>

record lib =
  Util_equals :: "jsnum \<Rightarrow> jsnum \<Rightarrow> jsnum option \<Rightarrow> bool"
  Util_between :: "jsnum \<Rightarrow> jsnum \<Rightarrow> jsnum \<Rightarrow> bool"
  Util_floorToDecimal :: "jsnum \<Rightarrow> nat \<Rightarrow> jsnum"
  Util_angleIsBetweenAngles :: "jsnum \<Rightarrow> jsnum \<Rightarrow> jsnum \<Rightarrow> bool"
  distanceTo :: "Coord2D \<Rightarrow> Coord2D \<Rightarrow> jsnum"
  angleTo :: "Coord2D \<Rightarrow> Coord2D \<Rightarrow> jsnum"
  isEqual :: "Coord2D \<Rightarrow> Coord2D \<Rightarrow> bool"

section \<open>The pairwise intersection solvers (\<open>SnapPoints.js\<close>)\<close>

definition isect_lineline :: "lib \<Rightarrow> Shape \<Rightarrow> Shape \<Rightarrow> Coord2D list" where
  "isect_lineline L l1 l2 =
     (let a1 = y (p2 l1) - y (p1 l1);
          b1 = x (p1 l1) - x (p2 l1);
          c1 = a1 * x (p1 l1) + b1 * y (p1 l1);
          a2 = y (p2 l2) - y (p1 l2);
          b2 = x (p1 l2) - x (p2 l2);
          c2 = a2 * x (p1 l2) + b2 * y (p1 l2);
          det = a1 * b2 - a2 * b1
      in if \<not> Util_equals L det 0 None then
           (let x0 = (b2 * c1 - b1 * c2) / det;
                y0 = (a1 * c2 - a2 * c1) / det
            in if Util_between L x0 (x (p1 l1)) (x (p2 l1)) \<and> Util_between L y0 (y (p1 l1)) (y (p2 l1))
                  \<and> Util_between L x0 (x (p1 l2)) (x (p2 l2)) \<and> Util_between L y0 (y (p1 l2)) (y (p2 l2))
               then [Coord2D_new x0 y0] else [])
         else [])"

text \<open>
  The three quadratic solvers share one shape: a root \<open>t\<close> is accepted when
  \<open>t >= 0 && t <= 1\<close>; the tangency branch writes \<open>intersections[0]\<close>, the two-root
  branch pushes the point of \<open>t1\<close> and then the point of \<open>t2\<close>.
\<close>

definition isect_ellipseline :: "lib \<Rightarrow> Shape \<Rightarrow> Shape \<Rightarrow> Coord2D list" where
  "isect_ellipseline L ellipse line =
     (if length (coeffs ellipse) > 0 then
        (let a = js_index (coeffs ellipse) 0;
             b = js_index (coeffs ellipse) 1;
             c = js_index (coeffs ellipse) 2;
             d = js_index (coeffs ellipse) 3;
             f = js_index (coeffs ellipse) 4;
             g = js_index (coeffs ellipse) 5;
             x1 = x (p1 line); y1 = y (p1 line);
             x2 = x (p2 line); y2 = y (p2 line);
             dx = x2 - x1;
             dy = y2 - y1;
             A = c*y2*y2 - 2*c*y1*y2 + 2*b*x2*y2 - 2*b*x1*y2 + c*y1*y1 - 2*b*x2*y1
                 + 2*b*x1*y1 + a*x2*x2 - 2*a*x1*x2 + a*x1*x1;
             B = 2*c*y1*y2 + 2*b*x1*y2 + 2*f*y2 - 2*c*y1*y1 + 2*b*x2*y1 - 4*b*x1*y1
                 - 2*f*y1 + 2*a*x1*x2 + 2*d*x2 - 2*a*x1*x1 - 2*d*x1;
             C = c*y1*y1 + 2*b*x1*y1 + 2*f*y1 + a*x1*x1 + 2*d*x1 + g;
             discriminant = B*B - 4*A*C;
             alpha = Fin (219 * 10 ^ 33);
             beta = Fin (- (5673 / 1000));
             area = rx ellipse * ry ellipse;
             tolerance = (alpha * Math_pow area beta) / Fin (10 ^ 41)
         in if Util_equals L discriminant 0 (Some tolerance) then
              (let t = (- B) / (2*A)
               in if t \<ge> 0 \<and> t \<le> 1
                  then [Coord2D_new (x (p1 line) + t * dx) (y (p1 line) + t * dy)] else [])
            else if discriminant > 0 then
              (let rootd = Math_sqrt discriminant;
                   t1 = (- B + rootd) / (2*A);
                   t2 = (- B - rootd) / (2*A)
               in (if t1 \<ge> 0 \<and> t1 \<le> 1
                   then [Coord2D_new (x (p1 line) + t1 * dx) (y (p1 line) + t1 * dy)] else [])
                  @ (if t2 \<ge> 0 \<and> t2 \<le> 1
                     then [Coord2D_new (x (p1 line) + t2 * dx) (y (p1 line) + t2 * dy)] else []))
            else [])
      else [])"

text \<open>
  The arc solvers keep the solutions whose angle from the arc's center lies between the
  start angle and \<open>extent = arc.sa + arc.da\<close>.
\<close>

definition isect_earcline :: "lib \<Rightarrow> Shape \<Rightarrow> Shape \<Rightarrow> Coord2D list" where
  "isect_earcline L arc line =
     (let solutions = isect_ellipseline L arc line
      in if length solutions > 0 then
           (let extent = sa arc + da arc
            in filter (\<lambda>s. Util_angleIsBetweenAngles L (angleTo L (center arc) s) (sa arc) extent)
                 solutions)
         else [])"

definition isect_circleline :: "lib \<Rightarrow> Shape \<Rightarrow> Shape \<Rightarrow> Coord2D list" where
  "isect_circleline L circle line =
     (let dx1 = x (p2 line) - x (p1 line);
          dy1 = y (p2 line) - y (p1 line);
          dx2 = x (p1 line) - x (center circle);
          dy2 = y (p1 line) - y (center circle);
          a = dx1 * dx1 + dy1 * dy1;
          b = 2 * (dx2 * dx1 + dy2 * dy1);
          c = (dx2 * dx2 + dy2 * dy2) - radius circle * radius circle;
          discriminant = b * b - 4 * a * c
      in if Util_equals L discriminant 0 (Some (Fin (1 / 10 ^ 25))) then
           (let t = (- b) / (2 * a)
            in if t \<ge> 0 \<and> t \<le> 1
               then [Coord2D_new (x (p1 line) + t * dx1) (y (p1 line) + t * dy1)] else [])
         else if discriminant > 0 then
           (let rootd = Math_sqrt discriminant;
                t1 = (- b + rootd) / (2 * a);
                t2 = (- b - rootd) / (2 * a)
            in (if t1 \<ge> 0 \<and> t1 \<le> 1
                then [Coord2D_new (x (p1 line) + t1 * dx1) (y (p1 line) + t1 * dy1)] else [])
               @ (if t2 \<ge> 0 \<and> t2 \<le> 1
                  then [Coord2D_new (x (p1 line) + t2 * dx1) (y (p1 line) + t2 * dy1)] else []))
         else [])"

definition isect_carcline :: "lib \<Rightarrow> Shape \<Rightarrow> Shape \<Rightarrow> Coord2D list" where
  "isect_carcline L arc line =
     (let solutions = isect_circleline L arc line
      in if length solutions > 0 then
           (let extent = sa arc + da arc
            in filter (\<lambda>s. Util_angleIsBetweenAngles L (angleTo L (center arc) s) (sa arc) extent)
                 solutions)
         else [])"

definition isect_bezierline :: "lib \<Rightarrow> Shape \<Rightarrow> Shape \<Rightarrow> Coord2D list" where
  "isect_bezierline L bezier line =
     (let x0 = x (p1 bezier); y0 = y (p1 bezier);
          x1 = x (p2 bezier); y1 = y (p2 bezier);
          x2 = x (p3 bezier); y2 = y (p3 bezier);
          x3 = x (p1 line); y3 = y (p1 line);
          x4 = x (p2 line); y4 = y (p2 line);
          A = x2*y4 - 2*x1*y4 + x0*y4 - x2*y3 + 2*x1*y3 - x0*y3 - x4*y2 + x3*y2 + 2*x4*y1
              - 2*x3*y1 - x4*y0 + x3*y0;
          B = 2*x1*y4 - 2*x0*y4 - 2*x1*y3 + 2*x0*y3 - 2*x4*y1 + 2*x3*y1 + 2*x4*y0 - 2*x3*y0;
          C = - x3*y4 + x0*y4 + x4*y3 - x0*y3 - x4*y0 + x3*y0;
          discriminant = B*B - 4*A*C;
          pointAt = (\<lambda>t. let D = (1 - t)*(1 - t); E = 2*(1 - t)*t; F = t*t
                         in Coord2D_new (D*x0 + E*x1 + F*x2) (D*y0 + E*y1 + F*y2));
          solutions =
            (if Util_equals L discriminant 0 None then
               (let t = (- B) / (2*A) in if t \<ge> 0 \<and> t \<le> 1 then [pointAt t] else [])
             else if discriminant > 0 then
               (let rootd = Math_sqrt discriminant;
                    t1 = (- B + rootd) / (2*A);
                    t2 = (- B - rootd) / (2*A)
                in (if t1 \<ge> 0 \<and> t1 \<le> 1 then [pointAt t1] else [])
                   @ (if t2 \<ge> 0 \<and> t2 \<le> 1 then [pointAt t2] else []))
             else [])
      in filter (\<lambda>sol. Util_between L (x sol) (x (p1 line)) (x (p2 line))
                       \<and> Util_between L (y sol) (y (p1 line)) (y (p2 line)))
           solutions)"

text \<open>
  The circle-circle solver. \<open>d\<close>, \<open>rsum\<close> and \<open>rdiff\<close> are floored to six decimals; the
  tangency branch is guarded by \<open>d != 0\<close>.
\<close>

definition carccarc_solutions :: "lib \<Rightarrow> Shape \<Rightarrow> Shape \<Rightarrow> Coord2D list" where
  "carccarc_solutions L arc1 arc2 =
     (let d = Util_floorToDecimal L (distanceTo L (center arc1) (center arc2)) 6;
          rsum = Util_floorToDecimal L (radius arc1 + radius arc2) 6;
          rdiff = Util_floorToDecimal L (abs (radius arc1 - radius arc2)) 6;
          r1Squared = radius arc1 * radius arc1;
          r2Squared = radius arc2 * radius arc2;
          dx = x (center arc2) - x (center arc1);
          dy = y (center arc2) - y (center arc1)
      in if d < rsum \<and> d > rdiff then
           (let a = (r1Squared - r2Squared + d * d) / (2 * d);
                h = Math_sqrt (r1Squared - a * a);
                aratio = a / d;
                hratio = h / d;
                newdx = hratio * dx;
                newdy = hratio * dy;
                p2 = Coord2D_new (x (center arc1) + aratio * dx) (y (center arc1) + aratio * dy)
            in [Coord2D_new (x p2 + newdy) (y p2 - newdx),
                Coord2D_new (x p2 - newdy) (y p2 + newdx)])
         else if \<not> jeq d 0 \<and> (Util_equals L rsum d None \<or> Util_equals L rdiff d None) then
           (let rratio = radius arc1 / d
            in [Coord2D_new (x (center arc1) + rratio * dx) (y (center arc1) + rratio * dy)])
         else [])"

definition isect_carccarc :: "lib \<Rightarrow> Shape \<Rightarrow> Shape \<Rightarrow> Coord2D list" where
  "isect_carccarc L arc1 arc2 =
     (let solutions = carccarc_solutions L arc1 arc2
      in if length solutions > 0 then
           (let extent1 = sa arc1 + da arc1;
                extent2 = sa arc2 + da arc2
            in filter (\<lambda>s. Util_angleIsBetweenAngles L (angleTo L (center arc1) s) (sa arc1) extent1
                          \<and> Util_angleIsBetweenAngles L (angleTo L (center arc2) s) (sa arc2) extent2)
                 solutions)
         else [])"

text \<open>
  A rectangle is cut into its four sides (top, right, bottom, left), each solved as a line;
  the six \<open>isect_*rect\<close> functions differ only in the line solver they call.
\<close>

definition rect_sides :: "Shape \<Rightarrow> Shape list" where
  "rect_sides r =
     [Line_fromPoints (Coord2D_new (left (rect r)) (top' (rect r)))
                      (Coord2D_new (right (rect r)) (top' (rect r))),
      Line_fromPoints (Coord2D_new (right (rect r)) (top' (rect r)))
                      (Coord2D_new (right (rect r)) (bottom (rect r))),
      Line_fromPoints (Coord2D_new (right (rect r)) (bottom (rect r)))
                      (Coord2D_new (left (rect r)) (bottom (rect r))),
      Line_fromPoints (Coord2D_new (left (rect r)) (bottom (rect r)))
                      (Coord2D_new (left (rect r)) (top' (rect r)))]"

definition isect_linerect :: "lib \<Rightarrow> Shape \<Rightarrow> Shape \<Rightarrow> Coord2D list" where
  "isect_linerect L line r = concat (map (isect_lineline L line) (rect_sides r))"

definition isect_carcrect :: "lib \<Rightarrow> Shape \<Rightarrow> Shape \<Rightarrow> Coord2D list" where
  "isect_carcrect L carc r = concat (map (isect_carcline L carc) (rect_sides r))"

definition isect_earcrect :: "lib \<Rightarrow> Shape \<Rightarrow> Shape \<Rightarrow> Coord2D list" where
  "isect_earcrect L earc r = concat (map (isect_earcline L earc) (rect_sides r))"

definition isect_ellipserect :: "lib \<Rightarrow> Shape \<Rightarrow> Shape \<Rightarrow> Coord2D list" where
  "isect_ellipserect L ellipse r = concat (map (isect_ellipseline L ellipse) (rect_sides r))"

definition isect_bezierrect :: "lib \<Rightarrow> Shape \<Rightarrow> Shape \<Rightarrow> Coord2D list" where
  "isect_bezierrect L bezier r = concat (map (isect_bezierline L bezier) (rect_sides r))"

definition isect_circlerect :: "lib \<Rightarrow> Shape \<Rightarrow> Shape \<Rightarrow> Coord2D list" where
  "isect_circlerect L circle r = concat (map (isect_circleline L circle) (rect_sides r))"

text \<open>
  The solvers are properties of the \<open>SnapPoints\<close> function object, looked up by name:
  \<open>SnapPoints[funcName]\<close>.
\<close>

definition SnapPoints_isect :: "lib \<Rightarrow> (string \<times> (Shape \<Rightarrow> Shape \<Rightarrow> Coord2D list)) list" where
  "SnapPoints_isect L =
     [(''isect_lineline'', isect_lineline L),
      (''isect_ellipseline'', isect_ellipseline L),
      (''isect_earcline'', isect_earcline L),
      (''isect_circleline'', isect_circleline L),
      (''isect_carcline'', isect_carcline L),
      (''isect_bezierline'', isect_bezierline L),
      (''isect_carccarc'', isect_carccarc L),
      (''isect_linerect'', isect_linerect L),
      (''isect_carcrect'', isect_carcrect L),
      (''isect_earcrect'', isect_earcrect L),
      (''isect_ellipserect'', isect_ellipserect L),
      (''isect_bezierrect'', isect_bezierrect L),
      (''isect_circlerect'', isect_circlerect L)]"

section \<open>The spatial hash index\<close>

text \<open>
  Modelled from the spec: \<open>SpatialHash.js\<close> is not among the sources. The index maps a grid
  cell \<open>(floor(x / bucketWidth), floor(y / bucketWidth))\<close> to the bucket of the points that
  fall in it; the buckets are kept in the order in which their cells were first used.
\<close>

record SpatialHash =
  bucketWidth :: jsnum
  buckets :: "((jsnum \<times> jsnum) \<times> Coord2D list) list"

text \<open>Modelled from the spec: construction takes a fixed bucket width.\<close>

definition SpatialHash_new :: "jsnum \<Rightarrow> SpatialHash" where
  "SpatialHash_new width = \<lparr>bucketWidth = width, buckets = []\<rparr>"

text \<open>Modelled from the spec: the cell of a point's coordinates.\<close>

definition SpatialHash_cell :: "SpatialHash \<Rightarrow> Coord2D \<Rightarrow> jsnum \<times> jsnum" where
  "SpatialHash_cell h p =
     (Math_floor (x p / bucketWidth h), Math_floor (y p / bucketWidth h))"

text \<open>
  Modelled from the spec: a point goes to the end of the bucket of its cell; a cell used for
  the first time gets a new bucket.
\<close>

fun bucket_append :: "jsnum \<times> jsnum \<Rightarrow> Coord2D \<Rightarrow> ((jsnum \<times> jsnum) \<times> Coord2D list) list
    \<Rightarrow> ((jsnum \<times> jsnum) \<times> Coord2D list) list" where
  "bucket_append k p [] = [(k, [p])]"
| "bucket_append k p ((k', b) # rest) =
     (if k' = k then (k', b @ [p]) # rest else (k', b) # bucket_append k p rest)"

text \<open>
  Modelled from the spec: \<open>insert\<close> computes the cell for the point's coordinates and
  appends it to that cell's bucket.
\<close>

definition SpatialHash_insert :: "SpatialHash \<Rightarrow> Coord2D \<Rightarrow> SpatialHash" where
  "SpatialHash_insert h p = h\<lparr>buckets := bucket_append (SpatialHash_cell h p) p (buckets h)\<rparr>"

text \<open>
  Modelled from the spec: the first matching entry of a bucket is deleted, the others stay;
  a bucket without a match and an index without the cell are left as they are.
\<close>

fun remove_first :: "('a \<Rightarrow> bool) \<Rightarrow> 'a list \<Rightarrow> 'a list" where
  "remove_first P [] = []"
| "remove_first P (q # qs) = (if P q then qs else q # remove_first P qs)"

fun bucket_remove :: "lib \<Rightarrow> jsnum \<times> jsnum \<Rightarrow> Coord2D \<Rightarrow> ((jsnum \<times> jsnum) \<times> Coord2D list) list
    \<Rightarrow> ((jsnum \<times> jsnum) \<times> Coord2D list) list" where
  "bucket_remove L k p [] = []"
| "bucket_remove L k p ((k', b) # rest) =
     (if k' = k then (k', remove_first (\<lambda>q. isEqual L q p) b) # rest
      else (k', b) # bucket_remove L k p rest)"

text \<open>
  Modelled from the spec: \<open>remove\<close> takes a batch of points; for each, it computes its cell
  and deletes the first matching entry (approximate equality, not identity) from that
  cell's bucket; a point that is not found is ignored, and an emptied bucket stays.
\<close>

definition SpatialHash_remove :: "lib \<Rightarrow> SpatialHash \<Rightarrow> Coord2D list \<Rightarrow> SpatialHash" where
  "SpatialHash_remove L h ps =
     fold (\<lambda>p h'. h'\<lparr>buckets := bucket_remove L (SpatialHash_cell h' p) p (buckets h')\<rparr>) ps h"

text \<open>
  Modelled from the spec: \<open>search\<close> computes the range of cells overlapped by the bounding
  box of the query disk and returns all points from those cells; the precise distance
  filter is left to the caller.
\<close>

definition SpatialHash_search :: "SpatialHash \<Rightarrow> Coord2D \<Rightarrow> jsnum \<Rightarrow> Coord2D list" where
  "SpatialHash_search h p r =
     (let ilo = Math_floor ((x p - r) / bucketWidth h);
          ihi = Math_floor ((x p + r) / bucketWidth h);
          jlo = Math_floor ((y p - r) / bucketWidth h);
          jhi = Math_floor ((y p + r) / bucketWidth h)
      in concat (map snd
           (filter (\<lambda>(k, b). ilo \<le> fst k \<and> fst k \<le> ihi \<and> jlo \<le> snd k \<and> snd k \<le> jhi)
              (buckets h))))"

section \<open>The snap point manager (\<open>SnapPoints.js\<close>)\<close>

definition insertFlag :: int where
  "insertFlag = 0"

definition deleteFlag :: int where
  "deleteFlag = 1"

definition bulkDeleteFlag :: int where
  "bulkDeleteFlag = 2"

definition nopFlag :: int where
  "nopFlag = 3"

record SnapPoints =
  points :: SpatialHash
  deletedPoints :: "Coord2D list"
  snapRadiusScale :: jsnum

text \<open>
  The constructor. \<open>Alberti.snapRadius\<close> and the zoom factor of the minimum zoom level
  (\<open>Zap.zoomFactors[Zap.minZoomLevel]\<close>) are constants of files that are not among the
  sources: they are parameters.
\<close>

definition SnapPoints_new :: "jsnum \<Rightarrow> jsnum \<Rightarrow> SnapPoints" where
  "SnapPoints_new snapRadius minZoomFactor =
     \<lparr>points = SpatialHash_new ((snapRadius / minZoomFactor) * 2),
      deletedPoints = [],
      snapRadiusScale = 1\<rparr>"

text \<open>
  Lines 80 to 92 of \<open>testIntersections\<close>: the solver is looked up under the name made of
  \<open>isect_\<close> and the two type names, the smaller one first; it is called with the shapes in
  that order. Without a solver of that name the intersections stay empty.
\<close>

definition pair_intersections :: "lib \<Rightarrow> Shape \<Rightarrow> Shape \<Rightarrow> Coord2D list" where
  "pair_intersections L newShape shape =
     (if str_lt (shapeName shape) (shapeName newShape) then
        (let funcName = ''isect_'' @ shapeName shape @ shapeName newShape
         in case map_of (SnapPoints_isect L) funcName of
              Some solver \<Rightarrow> solver shape newShape
            | None \<Rightarrow> [])
      else
        (let funcName = ''isect_'' @ shapeName newShape @ shapeName shape
         in case map_of (SnapPoints_isect L) funcName of
              Some solver \<Rightarrow> solver newShape shape
            | None \<Rightarrow> []))"

text \<open>The \<open>switch (action)\<close>: it has no default case.\<close>

definition apply_action :: "lib \<Rightarrow> int \<Rightarrow> Coord2D list \<Rightarrow> SnapPoints \<Rightarrow> SnapPoints" where
  "apply_action L action intersections this =
     (if action = insertFlag then
        this\<lparr>points := fold (\<lambda>p h. SpatialHash_insert h p) intersections (points this)\<rparr>
      else if action = deleteFlag then
        this\<lparr>points := fold (\<lambda>p h. SpatialHash_remove L h [p]) intersections (points this)\<rparr>
      else if action = bulkDeleteFlag then
        this\<lparr>deletedPoints := fold (\<lambda>p ds. ds @ [p]) intersections (deletedPoints this)\<rparr>
      else this)"

text \<open>
  The loop over \<open>shapeArray\<close>, whose entries may be \<open>null\<close>. Its state is the manager and
  the two arrays \<open>intersectors\<close> and \<open>allPoints\<close>.
\<close>

fun testIntersections_loop :: "lib \<Rightarrow> Shape \<Rightarrow> int \<Rightarrow> Shape option list
    \<Rightarrow> SnapPoints \<times> Shape list \<times> Coord2D list \<Rightarrow> SnapPoints \<times> Shape list \<times> Coord2D list" where
  "testIntersections_loop L newShape action [] st = st"
| "testIntersections_loop L newShape action (None # rest) st =
     testIntersections_loop L newShape action rest st"
| "testIntersections_loop L newShape action (Some shape # rest) (this, intersectors, allPoints) =
     (let intersections = pair_intersections L newShape shape;
          intersectors' = (if length intersections > 0 then intersectors @ [shape] else intersectors);
          allPoints' = (if length intersections > 0 then allPoints @ intersections else allPoints)
      in testIntersections_loop L newShape action rest
           (apply_action L action intersections this, intersectors', allPoints'))"

text \<open>
  \<open>testIntersections\<close> returns the pair \<open>[intersectors, allPoints]\<close>; the model returns the
  updated manager with it. The query shape \<open>newShape\<close> is a shape object (the source reads
  \<open>newShape.shapeName\<close> unguarded).
\<close>

definition testIntersections :: "lib \<Rightarrow> SnapPoints \<Rightarrow> Shape \<Rightarrow> Shape option list \<Rightarrow> int
    \<Rightarrow> SnapPoints \<times> Shape list \<times> Coord2D list" where
  "testIntersections L this newShape shapeArray action =
     testIntersections_loop L newShape action shapeArray (this, [], [])"

text \<open>
  \<open>getNearestNeighbor\<close>: the loop keeps the nearest coordinate found so far and its
  distance, which starts at \<open>Infinity\<close>. \<open>excludeCoord\<close> is optional; the result is \<open>null\<close>
  (\<open>None\<close>) when no coordinate was kept. \<open>Alberti.snapRadius\<close> is a parameter.
\<close>

definition nearest_step :: "lib \<Rightarrow> Coord2D \<Rightarrow> Coord2D option \<Rightarrow> Coord2D
    \<Rightarrow> Coord2D option \<times> jsnum \<Rightarrow> Coord2D option \<times> jsnum" where
  "nearest_step L coord excludeCoord c st =
     (if (case excludeCoord of None \<Rightarrow> True | Some e \<Rightarrow> \<not> isEqual L c e) then
        (let dist = distanceTo L coord c
         in if dist < snd st then (Some c, dist) else st)
      else st)"

definition getNearestNeighbor :: "lib \<Rightarrow> jsnum \<Rightarrow> SnapPoints \<Rightarrow> Coord2D \<Rightarrow> Coord2D option
    \<Rightarrow> Coord2D option" where
  "getNearestNeighbor L snapRadius this coord excludeCoord =
     (let qradius = snapRadius / snapRadiusScale this;
          nearCoords = SpatialHash_search (points this) coord qradius
      in fst (fold (nearest_step L coord excludeCoord) nearCoords (None, PInf)))"

definition flush :: "lib \<Rightarrow> SnapPoints \<Rightarrow> SnapPoints" where
  "flush L this =
     (this\<lparr>points := SpatialHash_remove L (points this) (deletedPoints this)\<rparr>)\<lparr>deletedPoints := []\<rparr>"

definition setSnapRadiusScale :: "SnapPoints \<Rightarrow> jsnum \<Rightarrow> SnapPoints" where
  "setSnapRadiusScale this scale = this\<lparr>snapRadiusScale := scale\<rparr>"

section \<open>Tangents through a point (\<open>EllipticalShape.js\<close>)\<close>


definition tangent_Q :: "Shape \<Rightarrow> Coord2D \<Rightarrow> jsnum" where
  "tangent_Q this p =
     (let b = js_index (coeffs this) 1; c = js_index (coeffs this) 2; f = js_index (coeffs this) 4;
          x0 = x p; y0 = y p
      in b*x0 + c*y0 + f)"




definition tangent_discriminant :: "Shape \<Rightarrow> Coord2D \<Rightarrow> jsnum" where
  "tangent_discriminant this p =
     (let a = js_index (coeffs this) 0; b = js_index (coeffs this) 1; c = js_index (coeffs this) 2;
          d = js_index (coeffs this) 3; f = js_index (coeffs this) 4; g = js_index (coeffs this) 5;
          x0 = x p; y0 = y p;
          Q = b*x0 + c*y0 + f;
          P = a*x0 + b*y0 + d;
          R = d*x0 + f*y0 + g;
          A = a - (2*b*P) / Q + (c*P*P) / (Q*Q);
          B = 2 * (d - (b*R + f*P) / Q + (c*P*R) / (Q*Q));
          C = g - (2*f*R) / Q + (c*R*R) / (Q*Q)
      in B*B - 4*A*C)"

definition getTangentsThrough :: "lib \<Rightarrow> Shape \<Rightarrow> Coord2D \<Rightarrow> Coord2D list" where
  "getTangentsThrough L this p =
     (let a = js_index (coeffs this) 0; b = js_index (coeffs this) 1; c = js_index (coeffs this) 2;
          d = js_index (coeffs this) 3; f = js_index (coeffs this) 4; g = js_index (coeffs this) 5;
          x0 = x p; y0 = y p;
          Q = b*x0 + c*y0 + f;
          P = a*x0 + b*y0 + d;
          R = d*x0 + f*y0 + g;
          A = a - (2*b*P) / Q + (c*P*P) / (Q*Q);
          B = 2 * (d - (b*R + f*P) / Q + (c*P*R) / (Q*Q));
          C = g - (2*f*R) / Q + (c*R*R) / (Q*Q);
          discriminant = B*B - 4*A*C
      in if Util_equals L discriminant 0 (Some (Fin (1 / 10 ^ 25))) then
           [Coord2D_new (x p) (y p)]
         else if discriminant > 0 then
           (let rootd = Math_sqrt discriminant;
                x1 = (- B + rootd) / (2*A);
                x2 = (- B - rootd) / (2*A);
                y1 = - (P*x1 + R) / Q;
                y2 = - (P*x2 + R) / Q
            in [Coord2D_new x1 y1, Coord2D_new x2 y2])
         else [])"


section \<open>A reference library\<close>

text \<open>
  One library record, written from what the spec says of the missing functions. The
  theorems below do not depend on it; it instantiates them for concrete runs. The default
  tolerance of \<open>Util.equals\<close> (the spec's "small constant") is its parameter.
\<close>

text \<open>
  Modelled from the spec: \<open>Util.equals\<close>, approximate equality under an epsilon that
  defaults to a small constant and that a call site can override.
\<close>

definition spec_equals :: "jsnum \<Rightarrow> jsnum \<Rightarrow> jsnum \<Rightarrow> jsnum option \<Rightarrow> bool" where
  "spec_equals eps a b tolerance =
     (abs (a - b) < (case tolerance of None \<Rightarrow> eps | Some t \<Rightarrow> t))"

text \<open>
  Modelled from the spec: \<open>Util.between\<close>, the value lies within the interval bounded by
  the two others, inclusive, whichever of them is the smaller.
\<close>

definition spec_between :: "jsnum \<Rightarrow> jsnum \<Rightarrow> jsnum \<Rightarrow> bool" where
  "spec_between n a b = ((a \<le> n \<and> n \<le> b) \<or> (b \<le> n \<and> n \<le> a))"

text \<open>
  Modelled from the spec: \<open>Util.floorToDecimal\<close>, the value cut down to a fixed number of
  decimal places.
\<close>

definition spec_floorToDecimal :: "jsnum \<Rightarrow> nat \<Rightarrow> jsnum" where
  "spec_floorToDecimal v places = Math_floor (v * Fin (10 ^ places)) / Fin (10 ^ places)"

text \<open>Modelled from the spec: \<open>Coord2D.distanceTo\<close>, the Euclidean distance.\<close>

definition spec_distanceTo :: "Coord2D \<Rightarrow> Coord2D \<Rightarrow> jsnum" where
  "spec_distanceTo p q =
     Math_sqrt ((x q - x p) * (x q - x p) + (y q - y p) * (y q - y p))"

text \<open>
  Modelled from the spec: \<open>Coord2D.angleTo\<close>, the polar angle of a point relative to a
  center, in \<open>(-pi, pi]\<close>; \<open>NaN\<close> when a coordinate is not finite.
\<close>

definition polar_angle :: "real \<Rightarrow> real \<Rightarrow> real" where
  "polar_angle dx dy =
     (if 0 < dx then arctan (dy / dx)
      else if dx < 0 then (if 0 \<le> dy then arctan (dy / dx) + pi else arctan (dy / dx) - pi)
      else if 0 < dy then pi / 2
      else if dy < 0 then - (pi / 2)
      else 0)"

definition spec_angleTo :: "Coord2D \<Rightarrow> Coord2D \<Rightarrow> jsnum" where
  "spec_angleTo p q =
     (case (x q - x p, y q - y p) of
        (Fin dx, Fin dy) \<Rightarrow> Fin (polar_angle dx dy)
      | _ \<Rightarrow> NaN)"

text \<open>
  Modelled from the spec: \<open>Util.angleIsBetweenAngles\<close>, the angle lies within the range
  swept between the two others, modulo a full turn (so that a range across the \<open>0/2pi\<close>
  boundary and a negative delta are handled); a sweep of a full turn or more holds every
  angle.
\<close>

definition spec_angleIsBetweenAngles :: "jsnum \<Rightarrow> jsnum \<Rightarrow> jsnum \<Rightarrow> bool" where
  "spec_angleIsBetweenAngles a b c =
     (case (a, b, c) of
        (Fin a', Fin b', Fin c') \<Rightarrow>
          (let lo = min b' c'; hi = max b' c'; turns = (a' - lo) / (2 * pi)
           in 2 * pi \<le> hi - lo \<or> (turns - of_int \<lfloor>turns\<rfloor>) * (2 * pi) \<le> hi - lo)
      | _ \<Rightarrow> False)"

text \<open>
  Modelled from the spec: \<open>Coord2D.isEqual\<close>, approximate (epsilon-based) equality of both
  coordinates.
\<close>

definition spec_isEqual :: "jsnum \<Rightarrow> Coord2D \<Rightarrow> Coord2D \<Rightarrow> bool" where
  "spec_isEqual eps p q = (spec_equals eps (x p) (x q) None \<and> spec_equals eps (y p) (y q) None)"

definition spec_lib :: "jsnum \<Rightarrow> lib" where
  "spec_lib eps =
     \<lparr>Util_equals = spec_equals eps,
      Util_between = spec_between,
      Util_floorToDecimal = spec_floorToDecimal,
      Util_angleIsBetweenAngles = spec_angleIsBetweenAngles,
      distanceTo = spec_distanceTo,
      angleTo = spec_angleTo,
      isEqual = spec_isEqual eps\<rparr>"

text \<open>The reference library with a default tolerance of \<open>1e-10\<close>.\<close>

definition ref_lib :: lib where
  "ref_lib = spec_lib (Fin (1 / 10 ^ 10))"

text \<open>Shapes for concrete runs: a line, and a circular arc given by center, radius, start and delta angle.\<close>

definition line_of :: "real \<Rightarrow> real \<Rightarrow> real \<Rightarrow> real \<Rightarrow> Shape" where
  "line_of ax ay bx by = Line_fromPoints (Coord2D_new (Fin ax) (Fin ay)) (Coord2D_new (Fin bx) (Fin by))"

definition carc_of :: "real \<Rightarrow> real \<Rightarrow> real \<Rightarrow> real \<Rightarrow> real \<Rightarrow> Shape" where
  "carc_of cx cy r s d =
     (blank_shape ''carc'')\<lparr>center := Coord2D_new (Fin cx) (Fin cy), radius := Fin r, sa := Fin s, da := Fin d\<rparr>"

definition circle_of :: "real \<Rightarrow> real \<Rightarrow> real \<Rightarrow> Shape" where
  "circle_of cx cy r = (blank_shape ''circle'')\<lparr>center := Coord2D_new (Fin cx) (Fin cy), radius := Fin r\<rparr>"

definition ellipse_of :: "real \<Rightarrow> real \<Rightarrow> real \<Rightarrow> real \<Rightarrow> real list \<Rightarrow> Shape" where
  "ellipse_of cx cy a b cs =
     (blank_shape ''ellipse'')\<lparr>center := Coord2D_new (Fin cx) (Fin cy), rx := Fin a, ry := Fin b,
        coeffs := map Fin cs\<rparr>"

section \<open>What the claims speak of\<close>

text \<open>The entries of a candidate list that are not \<open>null\<close>, in order.\<close>

fun non_null :: "'a option list \<Rightarrow> 'a list" where
  "non_null [] = []"
| "non_null (None # rest) = non_null rest"
| "non_null (Some v # rest) = v # non_null rest"

text \<open>
  The pair a query for \<open>newShape\<close> against a candidate list is expected to return: the
  candidates whose solver found a point, and the points of all candidates in order.
\<close>

definition intersecting_shapes :: "lib \<Rightarrow> Shape \<Rightarrow> Shape option list \<Rightarrow> Shape list" where
  "intersecting_shapes L newShape shapeArray =
     filter (\<lambda>shape. pair_intersections L newShape shape \<noteq> []) (non_null shapeArray)"

definition all_points :: "lib \<Rightarrow> Shape \<Rightarrow> Shape option list \<Rightarrow> Coord2D list" where
  "all_points L newShape shapeArray =
     concat (map (pair_intersections L newShape) (non_null shapeArray))"

text \<open>
  The name under which \<open>testIntersections\<close> looks the solver of a pair up, and whether a
  solver of that name is registered.
\<close>

definition solver_name :: "Shape \<Rightarrow> Shape \<Rightarrow> string" where
  "solver_name newShape shape =
     (if str_lt (shapeName shape) (shapeName newShape)
      then ''isect_'' @ shapeName shape @ shapeName newShape
      else ''isect_'' @ shapeName newShape @ shapeName shape)"

definition has_solver :: "lib \<Rightarrow> Shape \<Rightarrow> Shape \<Rightarrow> bool" where
  "has_solver L newShape shape = (map_of (SnapPoints_isect L) (solver_name newShape shape) \<noteq> None)"

text \<open>A candidate that takes part in a query: not \<open>null\<close>, and with a solver for the pair.\<close>

definition takes_part :: "lib \<Rightarrow> Shape \<Rightarrow> Shape option \<Rightarrow> bool" where
  "takes_part L newShape candidate =
     (case candidate of None \<Rightarrow> False | Some shape \<Rightarrow> has_solver L newShape shape)"

text \<open>
  The candidates \<open>getNearestNeighbor\<close> compares: what the index returns for the query
  radius, without those that \<open>isEqual\<close> the coordinate to exclude.
\<close>

definition kept_candidates :: "lib \<Rightarrow> jsnum \<Rightarrow> SnapPoints \<Rightarrow> Coord2D \<Rightarrow> Coord2D option
    \<Rightarrow> Coord2D list" where
  "kept_candidates L snapRadius this coord excludeCoord =
     filter (\<lambda>c. case excludeCoord of None \<Rightarrow> True | Some e \<Rightarrow> \<not> isEqual L c e)
       (SpatialHash_search (points this) coord (snapRadius / snapRadiusScale this))"

text \<open>The three numbers the circle-circle solver compares.\<close>

definition carccarc_d :: "lib \<Rightarrow> Shape \<Rightarrow> Shape \<Rightarrow> jsnum" where
  "carccarc_d L arc1 arc2 = Util_floorToDecimal L (distanceTo L (center arc1) (center arc2)) 6"

definition carccarc_rsum :: "lib \<Rightarrow> Shape \<Rightarrow> Shape \<Rightarrow> jsnum" where
  "carccarc_rsum L arc1 arc2 = Util_floorToDecimal L (radius arc1 + radius arc2) 6"

definition carccarc_rdiff :: "lib \<Rightarrow> Shape \<Rightarrow> Shape \<Rightarrow> jsnum" where
  "carccarc_rdiff L arc1 arc2 = Util_floorToDecimal L (abs (radius arc1 - radius arc2)) 6"

text \<open>
  The test the circle-circle solver filters its solutions with: the point lies on both
  arcs. Two full circles hold every point the solver constructs.
\<close>

definition on_both_arcs :: "lib \<Rightarrow> Shape \<Rightarrow> Shape \<Rightarrow> Coord2D \<Rightarrow> bool" where
  "on_both_arcs L arc1 arc2 s =
     (Util_angleIsBetweenAngles L (angleTo L (center arc1) s) (sa arc1) (sa arc1 + da arc1)
      \<and> Util_angleIsBetweenAngles L (angleTo L (center arc2) s) (sa arc2) (sa arc2 + da arc2))"

text \<open>
  The coefficients and the discriminant of the quadratic of the circle-line solver, the
  point of the line at parameter \<open>t\<close>, and the acceptance test of a root.
\<close>

definition circleline_a :: "Shape \<Rightarrow> jsnum" where
  "circleline_a line =
     (let dx1 = x (p2 line) - x (p1 line); dy1 = y (p2 line) - y (p1 line)
      in dx1 * dx1 + dy1 * dy1)"

definition circleline_b :: "Shape \<Rightarrow> Shape \<Rightarrow> jsnum" where
  "circleline_b circle line =
     (let dx1 = x (p2 line) - x (p1 line); dy1 = y (p2 line) - y (p1 line);
          dx2 = x (p1 line) - x (center circle); dy2 = y (p1 line) - y (center circle)
      in 2 * (dx2 * dx1 + dy2 * dy1))"

definition circleline_c :: "Shape \<Rightarrow> Shape \<Rightarrow> jsnum" where
  "circleline_c circle line =
     (let dx2 = x (p1 line) - x (center circle); dy2 = y (p1 line) - y (center circle)
      in (dx2 * dx2 + dy2 * dy2) - radius circle * radius circle)"

definition circleline_discriminant :: "Shape \<Rightarrow> Shape \<Rightarrow> jsnum" where
  "circleline_discriminant circle line =
     circleline_b circle line * circleline_b circle line
       - 4 * circleline_a line * circleline_c circle line"

definition line_point :: "Shape \<Rightarrow> jsnum \<Rightarrow> Coord2D" where
  "line_point line t =
     Coord2D_new (x (p1 line) + t * (x (p2 line) - x (p1 line)))
                 (y (p1 line) + t * (y (p2 line) - y (p1 line)))"

definition accepted_point :: "Shape \<Rightarrow> jsnum \<Rightarrow> Coord2D list" where
  "accepted_point line t = (if t \<ge> 0 \<and> t \<le> 1 then [line_point line t] else [])"




text \<open>The tolerance \<open>1e-25\<close> of the discriminant tests.\<close>

definition tol25 :: jsnum where
  "tol25 = Fin (1 / 10 ^ 25)"

text \<open>
  A manager for concrete runs: snap radius 2 and the given minimum zoom factor (so the
  bucket width is 4 over that factor), the index holding the given points, inserted in
  order.
\<close>

definition point_of :: "real \<Rightarrow> real \<Rightarrow> Coord2D" where
  "point_of a b = Coord2D_new (Fin a) (Fin b)"

definition manager_of :: "real \<Rightarrow> Coord2D list \<Rightarrow> SnapPoints" where
  "manager_of zoom ps =
     (SnapPoints_new (Fin 2) (Fin zoom))
       \<lparr>points := fold (\<lambda>p h. SpatialHash_insert h p) ps (points (SnapPoints_new (Fin 2) (Fin zoom)))\<rparr>"

section \<open>Evaluating numbers\<close>

lemma numeral_jsnum: "(numeral n :: jsnum) = Fin (numeral n)"
proof (induction n)
  case One
  show ?case by (simp add: one_jsnum_def)
next
  case (Bit0 n)
  have "(numeral (num.Bit0 n) :: jsnum) = numeral n + numeral n"
    by (rule numeral_Bit0)
  also have "\<dots> = Fin (numeral n + numeral n)"
    by (simp add: Bit0 plus_jsnum_def)
  finally show ?case by (simp add: numeral_Bit0)
next
  case (Bit1 n)
  have "(numeral (num.Bit1 n) :: jsnum) = numeral n + numeral n + 1"
    by (rule numeral_Bit1)
  also have "\<dots> = Fin (numeral n + numeral n + 1)"
    by (simp add: Bit1 plus_jsnum_def one_jsnum_def)
  finally show ?case by (simp add: numeral_Bit1)
qed

lemmas jsnum_eval =
  zero_jsnum_def one_jsnum_def numeral_jsnum plus_jsnum_def minus_jsnum_def uminus_jsnum_def
  times_jsnum_def divide_jsnum_def abs_jsnum_def less_jsnum_def less_eq_jsnum_def jeq_def
  signed_inf_def

lemmas shape_eval =
  point_of_def Coord2D_new_def blank_shape_def Line_fromPoints_def line_of_def carc_of_def circle_of_def
  ellipse_of_def

lemmas spec_lib_eval =
  ref_lib_def spec_lib_def spec_equals_def spec_between_def spec_floorToDecimal_def spec_distanceTo_def
  spec_angleTo_def spec_angleIsBetweenAngles_def spec_isEqual_def

lemmas index_eval =
  manager_of_def SnapPoints_new_def SpatialHash_new_def SpatialHash_insert_def
  SpatialHash_cell_def SpatialHash_search_def SpatialHash_remove_def Let_def

lemma jsnum_less_asym: "(a::jsnum) < b \<Longrightarrow> \<not> b < a"
  by (cases a; cases b) (simp_all add: less_jsnum_def)

section \<open>Dispatch\<close>

lemma lookup_lineline: "map_of (SnapPoints_isect L) ''isect_lineline'' = Some (isect_lineline L)"
  by (simp add: SnapPoints_isect_def)

lemma lookup_carccarc: "map_of (SnapPoints_isect L) ''isect_carccarc'' = Some (isect_carccarc L)"
  by (simp add: SnapPoints_isect_def)

lemma shapeName_line_of: "shapeName (line_of a b c d) = ''line''"
  by (simp add: shape_eval)

lemma shapeName_carc_of: "shapeName (carc_of a b r s e) = ''carc''"
  by (simp add: shape_eval)

lemma pair_lines:
  "pair_intersections L (line_of a b c d) (line_of a' b' c' d') =
     isect_lineline L (line_of a b c d) (line_of a' b' c' d')"
  by (simp add: pair_intersections_def shapeName_line_of lookup_lineline)

lemma pair_carcs:
  "pair_intersections L (carc_of a b r s e) (carc_of a' b' r' s' e') =
     isect_carccarc L (carc_of a b r s e) (carc_of a' b' r' s' e')"
  by (simp add: pair_intersections_def shapeName_carc_of lookup_carccarc)

lemma pair_intersections_solver:
  "pair_intersections L newShape shape =
     (case map_of (SnapPoints_isect L) (solver_name newShape shape) of
        Some solver \<Rightarrow> (if str_lt (shapeName shape) (shapeName newShape)
                         then solver shape newShape else solver newShape shape)
      | None \<Rightarrow> [])"
  by (simp add: pair_intersections_def solver_name_def Let_def split: option.splits)

lemma no_solver_no_points:
  "\<not> has_solver L newShape shape \<Longrightarrow> pair_intersections L newShape shape = []"
  by (simp add: pair_intersections_solver has_solver_def)

text \<open>Two lines that cross, and three lines through the origin.\<close>

lemma lines_cross:
  "isect_lineline ref_lib (line_of 0 0 10 0) (line_of 5 (-5) 5 5) = [point_of 5 0]"
  by (simp add: isect_lineline_def Let_def spec_lib_eval shape_eval jsnum_eval)

lemma lines_origin_1:
  "isect_lineline ref_lib (line_of (-1) 0 1 0) (line_of 0 (-1) 0 1) = [point_of 0 0]"
  by (simp add: isect_lineline_def Let_def spec_lib_eval shape_eval jsnum_eval)

lemma lines_origin_2:
  "isect_lineline ref_lib (line_of (-1) 0 1 0) (line_of (-1) (-1) 1 1) = [point_of 0 0]"
  by (simp add: isect_lineline_def Let_def spec_lib_eval shape_eval jsnum_eval)

section \<open>The loop of \<open>testIntersections\<close>\<close>

lemma fold_append_each: "fold (\<lambda>p ds. ds @ [p]) ps ds = ds @ ps"
  by (induction ps arbitrary: ds) simp_all

lemma loop_result:
  "testIntersections_loop L newShape action shapeArray (this, intersectors, allPoints) =
     (fold (\<lambda>shape. apply_action L action (pair_intersections L newShape shape))
        (non_null shapeArray) this,
      intersectors @ filter (\<lambda>shape. pair_intersections L newShape shape \<noteq> []) (non_null shapeArray),
      allPoints @ concat (map (pair_intersections L newShape) (non_null shapeArray)))"
proof (induction shapeArray arbitrary: this intersectors allPoints)
  case Nil
  show ?case by simp
next
  case (Cons candidate rest)
  show ?case
  proof (cases candidate)
    case None
    then show ?thesis using Cons.IH by simp
  next
    case (Some shape)
    then show ?thesis using Cons.IH by (simp add: Let_def)
  qed
qed

lemma fold_nop: "fold (\<lambda>shape. apply_action L nopFlag (f shape)) shapes this = this"
  by (induction shapes)
     (simp_all add: apply_action_def nopFlag_def insertFlag_def deleteFlag_def bulkDeleteFlag_def)

lemma fold_insert:
  "fold (\<lambda>shape. apply_action L insertFlag (f shape)) shapes this =
     this\<lparr>points := fold (\<lambda>p h. SpatialHash_insert h p) (concat (map f shapes)) (points this)\<rparr>"
  by (induction shapes arbitrary: this) (simp_all add: apply_action_def)

lemma fold_delete:
  "fold (\<lambda>shape. apply_action L deleteFlag (f shape)) shapes this =
     this\<lparr>points := fold (\<lambda>p h. SpatialHash_remove L h [p]) (concat (map f shapes)) (points this)\<rparr>"
  by (induction shapes arbitrary: this)
     (simp_all add: apply_action_def deleteFlag_def insertFlag_def)

lemma fold_bulk:
  "fold (\<lambda>shape. apply_action L bulkDeleteFlag (f shape)) shapes this =
     this\<lparr>deletedPoints := deletedPoints this @ concat (map f shapes)\<rparr>"
  by (induction shapes arbitrary: this)
     (simp_all add: apply_action_def deleteFlag_def insertFlag_def bulkDeleteFlag_def
        fold_append_each)

lemma apply_action_nothing: "apply_action L action [] this = this"
  by (simp add: apply_action_def)

lemma loop_skips:
  "testIntersections_loop L newShape action shapeArray st =
     testIntersections_loop L newShape action (filter (takes_part L newShape) shapeArray) st"
proof (induction shapeArray arbitrary: st)
  case Nil
  show ?case by simp
next
  case (Cons candidate rest)
  obtain this intersectors allPoints where st: "st = (this, intersectors, allPoints)"
    by (cases st) auto
  show ?case
  proof (cases candidate)
    case None
    then show ?thesis using Cons.IH by (simp add: takes_part_def)
  next
    case (Some shape)
    show ?thesis
    proof (cases "has_solver L newShape shape")
      case True
      then show ?thesis using Some Cons.IH st by (simp add: takes_part_def Let_def)
    next
      case False
      then show ?thesis using Some Cons.IH st
        by (simp add: takes_part_def no_solver_no_points apply_action_nothing)
    qed
  qed
qed

section \<open>C1: what \<open>testIntersections\<close> returns and what it changes\<close>

text \<open>
  Claim C1. For every shape, candidate list and action flag, \<open>testIntersections\<close> returns
  the pair (intersecting shapes, all intersection points) computed from the pairwise
  solvers, the same pair for every action. With the no-op flag the manager (its index and
  its pending-deletion list) is unchanged; with the insert flag every resulting point is
  inserted into the index, in order; with the delete flag every resulting point is removed
  from the index, one call of \<open>remove\<close> each; with the bulk-delete flag every resulting
  point is appended to the pending-deletion list and the index is untouched.
\<close>

theorem testIntersections_result_and_effects:
  "snd (testIntersections L this newShape shapeArray action) =
     (intersecting_shapes L newShape shapeArray, all_points L newShape shapeArray)
   \<and> fst (testIntersections L this newShape shapeArray nopFlag) = this
   \<and> fst (testIntersections L this newShape shapeArray insertFlag) =
       this\<lparr>points := fold (\<lambda>p h. SpatialHash_insert h p)
                         (all_points L newShape shapeArray) (points this)\<rparr>
   \<and> fst (testIntersections L this newShape shapeArray deleteFlag) =
       this\<lparr>points := fold (\<lambda>p h. SpatialHash_remove L h [p])
                         (all_points L newShape shapeArray) (points this)\<rparr>
   \<and> fst (testIntersections L this newShape shapeArray bulkDeleteFlag) =
       this\<lparr>deletedPoints := deletedPoints this @ all_points L newShape shapeArray\<rparr>"
  by (simp add: testIntersections_def loop_result fold_nop fold_insert fold_delete fold_bulk
        intersecting_shapes_def all_points_def)

text \<open>
  The line from (0,0) to (10,0) against a list holding \<open>null\<close> and the line from (5,-5)
  to (5,5), on a manager whose index holds (5,0) already: the pair is the second line and
  the point (5,0); inserting adds a second copy, deleting empties the bucket, bulk-deleting
  queues the point.
\<close>

theorem testIntersections_result_and_effects_witness:
  "snd (testIntersections ref_lib (manager_of 1 [point_of 5 0]) (line_of 0 0 10 0)
          [None, Some (line_of 5 (-5) 5 5)] bulkDeleteFlag) =
     ([line_of 5 (-5) 5 5], [point_of 5 0])
   \<and> fst (testIntersections ref_lib (manager_of 1 [point_of 5 0]) (line_of 0 0 10 0)
          [None, Some (line_of 5 (-5) 5 5)] nopFlag) = manager_of 1 [point_of 5 0]
   \<and> fst (testIntersections ref_lib (manager_of 1 [point_of 5 0]) (line_of 0 0 10 0)
          [None, Some (line_of 5 (-5) 5 5)] insertFlag) = manager_of 1 [point_of 5 0, point_of 5 0]
   \<and> points (fst (testIntersections ref_lib (manager_of 1 [point_of 5 0]) (line_of 0 0 10 0)
          [None, Some (line_of 5 (-5) 5 5)] deleteFlag)) =
       \<lparr>bucketWidth = Fin 4, buckets = [((Fin 1, Fin 0), [])]\<rparr>
   \<and> deletedPoints (fst (testIntersections ref_lib (manager_of 1 [point_of 5 0]) (line_of 0 0 10 0)
          [None, Some (line_of 5 (-5) 5 5)] bulkDeleteFlag)) = [point_of 5 0]"
proof -
  note run = testIntersections_result_and_effects
      [of ref_lib "manager_of 1 [point_of 5 0]" "line_of 0 0 10 0"
          "[None, Some (line_of 5 (-5) 5 5)]" bulkDeleteFlag]
  have pts: "all_points ref_lib (line_of 0 0 10 0) [None, Some (line_of 5 (-5) 5 5)] = [point_of 5 0]"
    by (simp add: all_points_def pair_lines lines_cross)
  have shapes: "intersecting_shapes ref_lib (line_of 0 0 10 0) [None, Some (line_of 5 (-5) 5 5)]
      = [line_of 5 (-5) 5 5]"
    by (simp add: intersecting_shapes_def pair_lines lines_cross)
  have ins: "(manager_of 1 [point_of 5 0])
      \<lparr>points := fold (\<lambda>p h. SpatialHash_insert h p) [point_of 5 0] (points (manager_of 1 [point_of 5 0]))\<rparr>
      = manager_of 1 [point_of 5 0, point_of 5 0]"
    by (simp add: manager_of_def)
  have del: "SpatialHash_remove ref_lib (points (manager_of 1 [point_of 5 0])) [point_of 5 0]
      = \<lparr>bucketWidth = Fin 4, buckets = [((Fin 1, Fin 0), [])]\<rparr>"
    by (simp add: index_eval spec_lib_eval shape_eval jsnum_eval)
  have none: "deletedPoints (manager_of 1 [point_of 5 0]) = []"
    by (simp add: manager_of_def SnapPoints_new_def)
  have 1: "snd (testIntersections ref_lib (manager_of 1 [point_of 5 0]) (line_of 0 0 10 0)
          [None, Some (line_of 5 (-5) 5 5)] bulkDeleteFlag) = ([line_of 5 (-5) 5 5], [point_of 5 0])"
    using run [THEN conjunct1] by (simp only: pts shapes)
  have 2: "fst (testIntersections ref_lib (manager_of 1 [point_of 5 0]) (line_of 0 0 10 0)
          [None, Some (line_of 5 (-5) 5 5)] nopFlag) = manager_of 1 [point_of 5 0]"
    by (rule run [THEN conjunct2, THEN conjunct1])
  have 3: "fst (testIntersections ref_lib (manager_of 1 [point_of 5 0]) (line_of 0 0 10 0)
          [None, Some (line_of 5 (-5) 5 5)] insertFlag) = manager_of 1 [point_of 5 0, point_of 5 0]"
    using run [THEN conjunct2, THEN conjunct2, THEN conjunct1] by (simp only: pts ins)
  have 4: "points (fst (testIntersections ref_lib (manager_of 1 [point_of 5 0]) (line_of 0 0 10 0)
          [None, Some (line_of 5 (-5) 5 5)] deleteFlag)) =
       \<lparr>bucketWidth = Fin 4, buckets = [((Fin 1, Fin 0), [])]\<rparr>"
    using run [THEN conjunct2, THEN conjunct2, THEN conjunct2, THEN conjunct1]
    by (simp add: pts del)
  have 5: "deletedPoints (fst (testIntersections ref_lib (manager_of 1 [point_of 5 0]) (line_of 0 0 10 0)
          [None, Some (line_of 5 (-5) 5 5)] bulkDeleteFlag)) = [point_of 5 0]"
    using run [THEN conjunct2, THEN conjunct2, THEN conjunct2, THEN conjunct2]
    by (simp add: pts none)
  show ?thesis using 1 2 3 4 5 by (intro conjI)
qed

section \<open>C7: \<open>null\<close> candidates and pairs without a solver\<close>

text \<open>
  Claim C7. \<open>testIntersections\<close> does not fail on degenerate candidate lists: a \<open>null\<close>
  entry is skipped and contributes nothing, and a candidate for which no solver function
  is registered under the pair's name is treated as producing no intersections. Result and
  manager are those of the call on the list without these entries. (The model of
  \<open>testIntersections\<close> is a total function: for a shape and a candidate list the source
  has no statement that throws.)
\<close>

theorem testIntersections_skips_null_and_unsolved:
  "testIntersections L this newShape shapeArray action =
     testIntersections L this newShape (filter (takes_part L newShape) shapeArray) action"
  unfolding testIntersections_def by (rule loop_skips)

text \<open>
  A list with a \<open>null\<close> entry and a shape of type \<open>point\<close> (there is no
  \<open>isect_linepoint\<close>) before the crossing line.
\<close>

theorem testIntersections_skips_null_and_unsolved_witness:
  "testIntersections ref_lib (manager_of 1 []) (line_of 0 0 10 0)
     [None, Some (blank_shape ''point''), Some (line_of 5 (-5) 5 5)] insertFlag =
   (manager_of 1 [point_of 5 0], [line_of 5 (-5) 5 5], [point_of 5 0])"
proof -
  have no: "\<not> has_solver ref_lib (line_of 0 0 10 0) (blank_shape ''point'')"
    by (simp add: has_solver_def solver_name_def shapeName_line_of blank_shape_def SnapPoints_isect_def)
  have yes: "has_solver ref_lib (line_of 0 0 10 0) (line_of 5 (-5) 5 5)"
    by (simp add: has_solver_def solver_name_def shapeName_line_of lookup_lineline)
  have keep: "filter (takes_part ref_lib (line_of 0 0 10 0))
      [None, Some (blank_shape ''point''), Some (line_of 5 (-5) 5 5)] = [Some (line_of 5 (-5) 5 5)]"
    by (simp add: takes_part_def no yes)
  have run: "testIntersections ref_lib (manager_of 1 []) (line_of 0 0 10 0)
      [Some (line_of 5 (-5) 5 5)] insertFlag
      = (manager_of 1 [point_of 5 0], [line_of 5 (-5) 5 5], [point_of 5 0])"
    by (simp add: testIntersections_def pair_lines lines_cross apply_action_def manager_of_def)
  have "testIntersections ref_lib (manager_of 1 []) (line_of 0 0 10 0)
     [None, Some (blank_shape ''point''), Some (line_of 5 (-5) 5 5)] insertFlag =
     testIntersections ref_lib (manager_of 1 []) (line_of 0 0 10 0)
       (filter (takes_part ref_lib (line_of 0 0 10 0))
          [None, Some (blank_shape ''point''), Some (line_of 5 (-5) 5 5)]) insertFlag"
    by (rule testIntersections_skips_null_and_unsolved)
  also have "\<dots> = testIntersections ref_lib (manager_of 1 []) (line_of 0 0 10 0)
       [Some (line_of 5 (-5) 5 5)] insertFlag"
    by (simp only: keep)
  also have "\<dots> = (manager_of 1 [point_of 5 0], [line_of 5 (-5) 5 5], [point_of 5 0])"
    by (rule run)
  finally show ?thesis .
qed

section \<open>C8: flushing twice\<close>

lemma remove_nothing: "SpatialHash_remove L h [] = h"
  by (simp add: SpatialHash_remove_def)

text \<open>
  Claim C8. \<open>flush\<close> removes every point of the pending-deletion list from the index, in
  one batch, and then clears the list; so a second \<open>flush\<close> right after the first, with
  nothing bulk-deleted in between, changes neither the index nor the list.
\<close>

theorem flush_twice:
  "flush L this =
     this\<lparr>points := SpatialHash_remove L (points this) (deletedPoints this), deletedPoints := []\<rparr>
   \<and> flush L (flush L this) = flush L this"
  by (simp add: flush_def remove_nothing)

text \<open>
  A manager whose index holds (5,0) and (0,0) and whose pending list holds (5,0): the first
  \<open>flush\<close> empties the bucket of (5,0) and the list, the second changes nothing.
\<close>

theorem flush_twice_witness:
  "flush ref_lib ((manager_of 1 [point_of 5 0, point_of 0 0])\<lparr>deletedPoints := [point_of 5 0]\<rparr>) =
     \<lparr>points = \<lparr>bucketWidth = Fin 4,
                 buckets = [((Fin 1, Fin 0), []), ((Fin 0, Fin 0), [point_of 0 0])]\<rparr>,
      deletedPoints = [], snapRadiusScale = Fin 1\<rparr>
   \<and> flush ref_lib (flush ref_lib ((manager_of 1 [point_of 5 0, point_of 0 0])\<lparr>deletedPoints := [point_of 5 0]\<rparr>)) =
     \<lparr>points = \<lparr>bucketWidth = Fin 4,
                 buckets = [((Fin 1, Fin 0), []), ((Fin 0, Fin 0), [point_of 0 0])]\<rparr>,
      deletedPoints = [], snapRadiusScale = Fin 1\<rparr>"
proof -
  note twice = flush_twice
      [of ref_lib "(manager_of 1 [point_of 5 0, point_of 0 0])\<lparr>deletedPoints := [point_of 5 0]\<rparr>"]
  have first: "flush ref_lib ((manager_of 1 [point_of 5 0, point_of 0 0])\<lparr>deletedPoints := [point_of 5 0]\<rparr>) =
     \<lparr>points = \<lparr>bucketWidth = Fin 4,
                 buckets = [((Fin 1, Fin 0), []), ((Fin 0, Fin 0), [point_of 0 0])]\<rparr>,
      deletedPoints = [], snapRadiusScale = Fin 1\<rparr>"
    by (simp add: flush_def index_eval spec_lib_eval shape_eval jsnum_eval)
  show ?thesis
    using twice [THEN conjunct2] by (simp only: first)
qed

section \<open>C6: an ellipse without conic coefficients\<close>

text \<open>
  Claim C6. For every ellipse whose list of conic coefficients is empty and every line
  segment, the ellipse-line solver returns the empty sequence; it does not fail.
\<close>

theorem isect_ellipseline_no_coeffs:
  "coeffs ellipse = [] \<Longrightarrow> isect_ellipseline L ellipse line = []"
  by (simp add: isect_ellipseline_def)

text \<open>An ellipse with radii 2 and 1 and no coefficients, against a line through it.\<close>

theorem isect_ellipseline_no_coeffs_witness:
  "coeffs (ellipse_of 0 0 2 1 []) = []
   \<and> isect_ellipseline ref_lib (ellipse_of 0 0 2 1 []) (line_of (-5) 0 5 0) = []"
proof -
  have none: "coeffs (ellipse_of 0 0 2 1 []) = []"
    by (simp add: shape_eval)
  show ?thesis
    using none isect_ellipseline_no_coeffs [OF none, of ref_lib "line_of (-5) 0 5 0"] by (intro conjI)
qed

section \<open>C9: tangents through a point\<close>













text \<open>
  With \<open>Q = 0\<close> the divisions by \<open>Q\<close> give \<open>NaN\<close>: for the unit circle and the outer point
  (2,0) the discriminant is \<open>NaN\<close> and, under the reference library, no tangent is
  returned.
\<close>

lemma getTangentsThrough_Q_zero_example:
  "tangent_Q (ellipse_of 0 0 1 1 [1, 0, 1, 0, 0, -1]) (point_of 2 0) = Fin 0
   \<and> tangent_discriminant (ellipse_of 0 0 1 1 [1, 0, 1, 0, 0, -1]) (point_of 2 0) = NaN
   \<and> getTangentsThrough ref_lib (ellipse_of 0 0 1 1 [1, 0, 1, 0, 0, -1]) (point_of 2 0) = []"
  by (simp add: getTangentsThrough_def tangent_Q_def tangent_discriminant_def js_index_def
        shape_eval jsnum_eval spec_lib_eval Let_def)

section \<open>C10: concentric circles\<close>

lemma carccarc_solutions_unfold:
  "carccarc_solutions L arc1 arc2 =
     (if carccarc_d L arc1 arc2 < carccarc_rsum L arc1 arc2
         \<and> carccarc_d L arc1 arc2 > carccarc_rdiff L arc1 arc2
      then [hd (carccarc_solutions L arc1 arc2), hd (tl (carccarc_solutions L arc1 arc2))]
      else if \<not> jeq (carccarc_d L arc1 arc2) 0
              \<and> (Util_equals L (carccarc_rsum L arc1 arc2) (carccarc_d L arc1 arc2) None
                 \<or> Util_equals L (carccarc_rdiff L arc1 arc2) (carccarc_d L arc1 arc2) None)
      then [Coord2D_new
              (x (center arc1) + radius arc1 / carccarc_d L arc1 arc2 * (x (center arc2) - x (center arc1)))
              (y (center arc1) + radius arc1 / carccarc_d L arc1 arc2 * (y (center arc2) - y (center arc1)))]
      else [])"
  by (simp add: carccarc_solutions_def carccarc_d_def carccarc_rsum_def carccarc_rdiff_def Let_def)

text \<open>
  Under the reference library, whatever its default tolerance, a floored absolute value is
  never negative.
\<close>

lemma spec_floor_abs_nonneg: "\<not> spec_floorToDecimal (abs v) n < 0"
proof (cases v)
  case (Fin r)
  have "0 \<le> \<lfloor>\<bar>r\<bar> * 10 ^ n\<rfloor>" by simp
  then have "0 \<le> real_of_int \<lfloor>\<bar>r\<bar> * 10 ^ n\<rfloor> / 10 ^ n" by simp
  then show ?thesis using Fin by (simp add: spec_floorToDecimal_def jsnum_eval not_less)
qed (simp_all add: spec_floorToDecimal_def jsnum_eval)

lemma spec_lib_rdiff_nonneg: "\<not> carccarc_rdiff (spec_lib eps) arc1 arc2 < 0"
  by (simp add: carccarc_rdiff_def spec_lib_def spec_floor_abs_nonneg)

lemma ref_lib_rdiff_nonneg: "\<not> carccarc_rdiff ref_lib arc1 arc2 < 0"
  unfolding ref_lib_def by (rule spec_lib_rdiff_nonneg)

text \<open>
  Claim C10. For two circles whose floored center distance \<open>d\<close> is zero (concentric
  circles, coincident ones included), the circle-circle solver returns the empty
  sequence: the tangency branch, which divides by \<open>d\<close>, is guarded by \<open>d != 0\<close>, and the
  two-point branch needs \<open>d > rdiff\<close>. That the floored absolute radius difference
  \<open>rdiff\<close> is not negative is a property of \<open>Util.floorToDecimal\<close>, which is not among the
  sources: it is the second hypothesis.
\<close>

theorem isect_carccarc_concentric:
  assumes "carccarc_d L arc1 arc2 = 0"
    and "\<not> carccarc_rdiff L arc1 arc2 < 0"
  shows "isect_carccarc L arc1 arc2 = []"
proof -
  have "carccarc_solutions L arc1 arc2 = []"
    using assms by (subst carccarc_solutions_unfold) (simp add: jeq_def zero_jsnum_def)
  then show ?thesis by (simp add: isect_carccarc_def)
qed

text \<open>
  Two full circles around (3,4): radii 1 and 2 (\<open>rdiff = 1\<close>), and radius 2 twice
  (\<open>rdiff = 0 = d\<close>).
\<close>

theorem isect_carccarc_concentric_witness:
  "carccarc_d ref_lib (carc_of 3 4 1 0 (2 * pi)) (carc_of 3 4 2 0 (2 * pi)) = 0
   \<and> isect_carccarc ref_lib (carc_of 3 4 1 0 (2 * pi)) (carc_of 3 4 2 0 (2 * pi)) = []
   \<and> carccarc_d ref_lib (carc_of 3 4 2 0 (2 * pi)) (carc_of 3 4 2 0 (2 * pi)) = 0
   \<and> carccarc_rdiff ref_lib (carc_of 3 4 2 0 (2 * pi)) (carc_of 3 4 2 0 (2 * pi)) = 0
   \<and> isect_carccarc ref_lib (carc_of 3 4 2 0 (2 * pi)) (carc_of 3 4 2 0 (2 * pi)) = []"
proof -
  have d: "carccarc_d ref_lib (carc_of 3 4 r 0 (2 * pi)) (carc_of 3 4 r' 0 (2 * pi)) = 0" for r r'
    by (simp add: carccarc_d_def spec_lib_eval shape_eval jsnum_eval)
  have rdiff: "carccarc_rdiff ref_lib (carc_of 3 4 2 0 (2 * pi)) (carc_of 3 4 2 0 (2 * pi)) = 0"
    by (simp add: carccarc_rdiff_def spec_lib_eval shape_eval jsnum_eval)
  show ?thesis
    using d rdiff
      isect_carccarc_concentric [OF d ref_lib_rdiff_nonneg, of 1 2]
      isect_carccarc_concentric [OF d ref_lib_rdiff_nonneg, of 2 2]
    by (intro conjI)
qed

section \<open>C4: the cases of the circle-circle solver\<close>

lemma isect_carccarc_filter:
  "isect_carccarc L arc1 arc2 = filter (on_both_arcs L arc1 arc2) (carccarc_solutions L arc1 arc2)"
proof -
  have test: "(\<lambda>s. Util_angleIsBetweenAngles L (angleTo L (center arc1) s) (sa arc1) (sa arc1 + da arc1)
                \<and> Util_angleIsBetweenAngles L (angleTo L (center arc2) s) (sa arc2) (sa arc2 + da arc2))
      = on_both_arcs L arc1 arc2"
    by (rule ext) (simp add: on_both_arcs_def)
  have "isect_carccarc L arc1 arc2 =
      (if length (carccarc_solutions L arc1 arc2) > 0
       then filter (on_both_arcs L arc1 arc2) (carccarc_solutions L arc1 arc2) else [])"
    unfolding isect_carccarc_def Let_def test ..
  then show ?thesis by simp
qed

lemma full_circles_hold:
  "on_both_arcs ref_lib (carc_of a b r 0 (2 * pi)) (carc_of a' b' r' 0 (2 * pi)) (point_of c d)"
  by (simp add: on_both_arcs_def spec_lib_eval shape_eval jsnum_eval Let_def)

lemma two_circles_apart_d:
  "carccarc_d ref_lib (carc_of 0 0 r 0 (2 * pi)) (carc_of 10 0 r' 0 (2 * pi)) = Fin 10"
  by (simp add: carccarc_d_def spec_lib_eval shape_eval jsnum_eval)

lemma two_circles_apart_rsum:
  "carccarc_rsum ref_lib (carc_of 0 0 6 0 (2 * pi)) (carc_of 10 0 6 0 (2 * pi)) = Fin 12"
  "carccarc_rsum ref_lib (carc_of 0 0 5 0 (2 * pi)) (carc_of 10 0 5 0 (2 * pi)) = Fin 10"
  "carccarc_rsum ref_lib (carc_of 0 0 1 0 (2 * pi)) (carc_of 10 0 1 0 (2 * pi)) = Fin 2"
  by (simp_all add: carccarc_rsum_def spec_lib_eval shape_eval jsnum_eval)

lemma two_circles_apart_rdiff:
  "carccarc_rdiff ref_lib (carc_of 0 0 r 0 (2 * pi)) (carc_of 10 0 r 0 (2 * pi)) = Fin 0"
  by (simp add: carccarc_rdiff_def spec_lib_eval shape_eval jsnum_eval)

lemma two_circles_apart_solutions:
  "carccarc_solutions ref_lib (carc_of 0 0 6 0 (2 * pi)) (carc_of 10 0 6 0 (2 * pi))
     = [point_of 5 (- sqrt 11), point_of 5 (sqrt 11)]"
  "carccarc_solutions ref_lib (carc_of 0 0 5 0 (2 * pi)) (carc_of 10 0 5 0 (2 * pi)) = [point_of 5 0]"
  "carccarc_solutions ref_lib (carc_of 0 0 1 0 (2 * pi)) (carc_of 10 0 1 0 (2 * pi)) = []"
  by (simp_all add: carccarc_solutions_def spec_lib_eval shape_eval jsnum_eval Let_def)

lemma ref_lib_equals_default:
  "Util_equals ref_lib (Fin a) (Fin b) None = (\<bar>a - b\<bar> < 1 / 10 ^ 10)"
  by (simp add: spec_lib_eval jsnum_eval)

text \<open>
  Claim C4, as amended. The circle-circle solver compares the center distance \<open>d\<close>, the
  radius sum \<open>rsum\<close> and the absolute radius difference \<open>rdiff\<close>, each floored to six
  decimals. For two arcs that hold every point the solver constructs (two full circles):
  it returns two points when \<open>rdiff < d < rsum\<close>; otherwise exactly one point when \<open>d\<close> is
  not zero and \<open>Util.equals\<close> matches it with \<open>rsum\<close> or with \<open>rdiff\<close>; otherwise (when
  \<open>d\<close> is zero, or \<open>Util.equals\<close> matches it with neither) no point.
\<close>

theorem isect_carccarc_cases:
  assumes "\<forall>s\<in>set (carccarc_solutions L arc1 arc2). on_both_arcs L arc1 arc2 s"
  shows "(carccarc_d L arc1 arc2 < carccarc_rsum L arc1 arc2
            \<and> carccarc_d L arc1 arc2 > carccarc_rdiff L arc1 arc2
          \<longrightarrow> length (isect_carccarc L arc1 arc2) = 2)
       \<and> (\<not> (carccarc_d L arc1 arc2 < carccarc_rsum L arc1 arc2
               \<and> carccarc_d L arc1 arc2 > carccarc_rdiff L arc1 arc2)
            \<and> \<not> jeq (carccarc_d L arc1 arc2) 0
            \<and> (Util_equals L (carccarc_rsum L arc1 arc2) (carccarc_d L arc1 arc2) None
                 \<or> Util_equals L (carccarc_rdiff L arc1 arc2) (carccarc_d L arc1 arc2) None)
          \<longrightarrow> length (isect_carccarc L arc1 arc2) = 1)
       \<and> (\<not> (carccarc_d L arc1 arc2 < carccarc_rsum L arc1 arc2
               \<and> carccarc_d L arc1 arc2 > carccarc_rdiff L arc1 arc2)
            \<and> (jeq (carccarc_d L arc1 arc2) 0
                \<or> (\<not> Util_equals L (carccarc_rsum L arc1 arc2) (carccarc_d L arc1 arc2) None
                    \<and> \<not> Util_equals L (carccarc_rdiff L arc1 arc2) (carccarc_d L arc1 arc2) None))
          \<longrightarrow> isect_carccarc L arc1 arc2 = [])"
proof -
  have keep: "isect_carccarc L arc1 arc2 = carccarc_solutions L arc1 arc2"
    using assms by (simp add: isect_carccarc_filter)
  show ?thesis
    unfolding keep by (subst (1 2 3) carccarc_solutions_unfold) auto
qed

text \<open>
  Full circles around (0,0) and (10,0), so \<open>d = 10\<close>: with radius 6 each two points
  (\<open>x = 5\<close>, \<open>y\<close> the square root of 11, either sign), with radius 5 each (\<open>d = rsum\<close>)
  exactly one point, with radius 1 each none.
\<close>

theorem isect_carccarc_cases_witness:
  "length (isect_carccarc ref_lib (carc_of 0 0 6 0 (2 * pi)) (carc_of 10 0 6 0 (2 * pi))) = 2
   \<and> length (isect_carccarc ref_lib (carc_of 0 0 5 0 (2 * pi)) (carc_of 10 0 5 0 (2 * pi))) = 1
   \<and> isect_carccarc ref_lib (carc_of 0 0 1 0 (2 * pi)) (carc_of 10 0 1 0 (2 * pi)) = []"
proof -
  have six: "length (isect_carccarc ref_lib (carc_of 0 0 6 0 (2 * pi)) (carc_of 10 0 6 0 (2 * pi))) = 2"
    using isect_carccarc_cases [of ref_lib "carc_of 0 0 6 0 (2 * pi)" "carc_of 10 0 6 0 (2 * pi)"]
    by (simp add: two_circles_apart_solutions full_circles_hold two_circles_apart_d
          two_circles_apart_rsum two_circles_apart_rdiff jsnum_eval)
  have five: "length (isect_carccarc ref_lib (carc_of 0 0 5 0 (2 * pi)) (carc_of 10 0 5 0 (2 * pi))) = 1"
    using isect_carccarc_cases [of ref_lib "carc_of 0 0 5 0 (2 * pi)" "carc_of 10 0 5 0 (2 * pi)"]
    by (simp add: two_circles_apart_solutions full_circles_hold two_circles_apart_d
          two_circles_apart_rsum two_circles_apart_rdiff ref_lib_equals_default jsnum_eval)
  have one: "isect_carccarc ref_lib (carc_of 0 0 1 0 (2 * pi)) (carc_of 10 0 1 0 (2 * pi)) = []"
    using isect_carccarc_cases [of ref_lib "carc_of 0 0 1 0 (2 * pi)" "carc_of 10 0 1 0 (2 * pi)"]
    by (simp add: two_circles_apart_solutions two_circles_apart_d
          two_circles_apart_rsum two_circles_apart_rdiff ref_lib_equals_default jsnum_eval)
  show ?thesis using six five one by (intro conjI)
qed

text \<open>
  Claim C4 as stated fails for coincident circles: \<open>d\<close> equals the radius difference (both
  are zero, and \<open>Util.equals\<close> matches them), and the solver returns no point, not one.
\<close>

theorem isect_carccarc_coincident_counterexample:
  "carccarc_d ref_lib (carc_of 0 0 1 0 (2 * pi)) (carc_of 0 0 1 0 (2 * pi)) = Fin 0
   \<and> carccarc_rdiff ref_lib (carc_of 0 0 1 0 (2 * pi)) (carc_of 0 0 1 0 (2 * pi)) = Fin 0
   \<and> Util_equals ref_lib (carccarc_rdiff ref_lib (carc_of 0 0 1 0 (2 * pi)) (carc_of 0 0 1 0 (2 * pi)))
        (carccarc_d ref_lib (carc_of 0 0 1 0 (2 * pi)) (carc_of 0 0 1 0 (2 * pi))) None
   \<and> isect_carccarc ref_lib (carc_of 0 0 1 0 (2 * pi)) (carc_of 0 0 1 0 (2 * pi)) = []"
proof -
  have d: "carccarc_d ref_lib (carc_of 0 0 1 0 (2 * pi)) (carc_of 0 0 1 0 (2 * pi)) = Fin 0"
    by (simp add: carccarc_d_def spec_lib_eval shape_eval jsnum_eval)
  have rdiff: "carccarc_rdiff ref_lib (carc_of 0 0 1 0 (2 * pi)) (carc_of 0 0 1 0 (2 * pi)) = Fin 0"
    by (simp add: carccarc_rdiff_def spec_lib_eval shape_eval jsnum_eval)
  have none: "carccarc_solutions ref_lib (carc_of 0 0 1 0 (2 * pi)) (carc_of 0 0 1 0 (2 * pi)) = []"
    by (simp add: carccarc_solutions_def spec_lib_eval shape_eval jsnum_eval Let_def)
  show ?thesis
    by (simp add: d rdiff ref_lib_equals_default isect_carccarc_filter none)
qed

section \<open>C5: the cases of the circle-line solver\<close>

lemma circleline_unfold:
  "isect_circleline L circle line =
     (if Util_equals L (circleline_discriminant circle line) 0 (Some tol25) then
        accepted_point line ((- circleline_b circle line) / (2 * circleline_a line))
      else if circleline_discriminant circle line > 0 then
        accepted_point line
          ((- circleline_b circle line + Math_sqrt (circleline_discriminant circle line))
             / (2 * circleline_a line))
        @ accepted_point line
          ((- circleline_b circle line - Math_sqrt (circleline_discriminant circle line))
             / (2 * circleline_a line))
      else [])"
  by (simp add: isect_circleline_def circleline_discriminant_def circleline_a_def circleline_b_def
        circleline_c_def accepted_point_def line_point_def tol25_def Let_def)

lemma sqrt_40000: "sqrt 40000 = 200"
  by (rule real_sqrt_unique) simp_all

lemmas circleline_eval =
  circleline_discriminant_def circleline_a_def circleline_b_def circleline_c_def
  accepted_point_def line_point_def

lemma ref_lib_equals_tol25:
  "Util_equals ref_lib (Fin a) (Fin 0) (Some tol25) = (\<bar>a\<bar> < 1 / 10 ^ 25)"
  by (simp add: spec_lib_eval tol25_def jsnum_eval)

text \<open>
  Claim C5, as amended. The circle-line solver forms a quadratic in the line parameter
  \<open>t\<close>. When \<open>Util.equals\<close> finds the discriminant equal to zero within \<open>1e-25\<close> it returns
  at most one point: the point of the root \<open>t = -b / (2a)\<close> when that root lies in
  \<open>[0,1]\<close>, none otherwise. Otherwise a positive discriminant gives up to two points, those
  of the roots that lie in \<open>[0,1]\<close>, and a negative discriminant gives none.
\<close>

theorem isect_circleline_cases:
  "(Util_equals L (circleline_discriminant circle line) 0 (Some tol25)
      \<longrightarrow> isect_circleline L circle line =
            accepted_point line ((- circleline_b circle line) / (2 * circleline_a line)))
   \<and> (\<not> Util_equals L (circleline_discriminant circle line) 0 (Some tol25)
        \<and> circleline_discriminant circle line > 0
      \<longrightarrow> isect_circleline L circle line =
            accepted_point line
              ((- circleline_b circle line + Math_sqrt (circleline_discriminant circle line))
                 / (2 * circleline_a line))
            @ accepted_point line
              ((- circleline_b circle line - Math_sqrt (circleline_discriminant circle line))
                 / (2 * circleline_a line)))
   \<and> (\<not> Util_equals L (circleline_discriminant circle line) 0 (Some tol25)
        \<and> circleline_discriminant circle line < 0
      \<longrightarrow> isect_circleline L circle line = [])
   \<and> accepted_point line t = (if t \<ge> 0 \<and> t \<le> 1 then [line_point line t] else [])
   \<and> length (accepted_point line t) \<le> 1"
  using jsnum_less_asym [of "circleline_discriminant circle line" 0]
  by (subst (1 2 3) circleline_unfold) (auto simp: accepted_point_def)

text \<open>
  The unit circle and the tangent segment from (-1,1) to (1,1): one point, (0,1). The
  circle of radius 5 and the segment from (-10,0) to (10,0): the points (5,0) and (-5,0).
  The unit circle and the segment from (-1,2) to (1,2), which misses it: no point.
\<close>

theorem isect_circleline_cases_witness:
  "isect_circleline ref_lib (circle_of 0 0 1) (line_of (-1) 1 1 1) = [point_of 0 1]
   \<and> isect_circleline ref_lib (circle_of 0 0 5) (line_of (-10) 0 10 0) = [point_of 5 0, point_of (-5) 0]
   \<and> isect_circleline ref_lib (circle_of 0 0 1) (line_of (-1) 2 1 2) = []"
proof -
  have D: "circleline_discriminant (circle_of 0 0 1) (line_of (-1) 1 1 1) = Fin 0"
    "circleline_discriminant (circle_of 0 0 5) (line_of (-10) 0 10 0) = Fin 40000"
    "circleline_discriminant (circle_of 0 0 1) (line_of (-1) 2 1 2) = Fin (- 48)"
    by (simp_all add: circleline_eval shape_eval jsnum_eval Let_def)
  have tangent: "isect_circleline ref_lib (circle_of 0 0 1) (line_of (-1) 1 1 1) = [point_of 0 1]"
    using isect_circleline_cases [of ref_lib "circle_of 0 0 1" "line_of (-1) 1 1 1" 0, THEN conjunct1]
    by (simp add: D ref_lib_equals_tol25 jsnum_eval) (simp add: circleline_eval shape_eval jsnum_eval Let_def)
  have secant: "isect_circleline ref_lib (circle_of 0 0 5) (line_of (-10) 0 10 0) = [point_of 5 0, point_of (-5) 0]"
    using isect_circleline_cases [of ref_lib "circle_of 0 0 5" "line_of (-10) 0 10 0" 0, THEN conjunct2, THEN conjunct1]
    by (simp add: D ref_lib_equals_tol25 jsnum_eval) (simp add: circleline_eval shape_eval jsnum_eval Let_def sqrt_40000)
  have miss: "isect_circleline ref_lib (circle_of 0 0 1) (line_of (-1) 2 1 2) = []"
    using isect_circleline_cases [of ref_lib "circle_of 0 0 1" "line_of (-1) 2 1 2" 0, THEN conjunct2, THEN conjunct2, THEN conjunct1]
    by (simp add: D ref_lib_equals_tol25 jsnum_eval)
  show ?thesis using tangent secant miss by (intro conjI)
qed

text \<open>
  Claim C5 as stated fails for a tangent line whose segment does not reach the point of
  tangency: for the unit circle and the segment from (2,1) to (3,1) the discriminant is
  zero, the root is \<open>t = -2\<close>, and the solver returns no point, not exactly one.
\<close>

theorem isect_circleline_tangent_counterexample:
  "circleline_discriminant (circle_of 0 0 1) (line_of 2 1 3 1) = Fin 0
   \<and> Util_equals ref_lib (circleline_discriminant (circle_of 0 0 1) (line_of 2 1 3 1)) 0 (Some tol25)
   \<and> (- circleline_b (circle_of 0 0 1) (line_of 2 1 3 1)) / (2 * circleline_a (line_of 2 1 3 1)) = Fin (- 2)
   \<and> isect_circleline ref_lib (circle_of 0 0 1) (line_of 2 1 3 1) = []"
  by (simp add: isect_circleline_def circleline_eval spec_lib_eval shape_eval jsnum_eval tol25_def Let_def)

section \<open>C2: the nearest neighbour\<close>

lemma nearest_fold_filter:
  "fold (nearest_step L coord excludeCoord) cs st =
     fold (nearest_step L coord None)
       (filter (\<lambda>c. case excludeCoord of None \<Rightarrow> True | Some e \<Rightarrow> \<not> isEqual L c e) cs) st"
  by (induction cs arbitrary: st) (simp_all add: nearest_step_def split: option.splits)

lemma nearest_step_None:
  "nearest_step L coord None c (n, b) =
     (if distanceTo L coord c < b then (Some c, distanceTo L coord c) else (n, b))"
  by (simp add: nearest_step_def Let_def)

text \<open>
  The loop invariant, for candidates at finite distances \<open>dr\<close>: either a candidate nearer
  than the starting distance is found, and the nearest of them is kept, or nothing changes.
\<close>

lemma nearest_fold_min:
  assumes "\<forall>c\<in>set ks. distanceTo L coord c = Fin (dr c)"
    and "b = PInf \<or> b = Fin rb"
  shows "(\<exists>p\<in>set ks. fold (nearest_step L coord None) ks (n, b) = (Some p, Fin (dr p))
            \<and> Fin (dr p) < b \<and> (\<forall>c\<in>set ks. dr p \<le> dr c))
         \<or> (fold (nearest_step L coord None) ks (n, b) = (n, b) \<and> (\<forall>c\<in>set ks. \<not> Fin (dr c) < b))"
  using assms
proof (induction ks arbitrary: n b rb)
  case Nil
  show ?case by simp
next
  case (Cons c ks)
  have dc: "distanceTo L coord c = Fin (dr c)" using Cons.prems(1) by simp
  have rest: "\<forall>c\<in>set ks. distanceTo L coord c = Fin (dr c)" using Cons.prems(1) by simp
  show ?case
  proof (cases "Fin (dr c) < b")
    case True
    have step: "fold (nearest_step L coord None) (c # ks) (n, b)
                = fold (nearest_step L coord None) ks (Some c, Fin (dr c))"
      using True by (simp add: nearest_step_None dc)
    from Cons.IH [OF rest, of "Fin (dr c)" "dr c" "Some c"]
    consider (better) p where "p \<in> set ks"
        "fold (nearest_step L coord None) ks (Some c, Fin (dr c)) = (Some p, Fin (dr p))"
        "Fin (dr p) < Fin (dr c)" "\<forall>c'\<in>set ks. dr p \<le> dr c'"
      | (same) "fold (nearest_step L coord None) ks (Some c, Fin (dr c)) = (Some c, Fin (dr c))"
        "\<forall>c'\<in>set ks. \<not> Fin (dr c') < Fin (dr c)"
      by auto
    then show ?thesis
    proof cases
      case better
      have "Fin (dr p) < b"
        using better(3) True Cons.prems(2) by (auto simp: less_jsnum_def)
      moreover have "dr p \<le> dr c" using better(3) by (simp add: less_jsnum_def)
      ultimately show ?thesis using better step by auto
    next
      case same
      have "\<forall>c'\<in>set ks. dr c \<le> dr c'" using same(2) by (auto simp: less_jsnum_def not_less)
      then show ?thesis using same True step by auto
    qed
  next
    case False
    have step: "fold (nearest_step L coord None) (c # ks) (n, b)
                = fold (nearest_step L coord None) ks (n, b)"
      using False by (simp add: nearest_step_None dc)
    from Cons.IH [OF rest Cons.prems(2), of n]
    consider (better) p where "p \<in> set ks"
        "fold (nearest_step L coord None) ks (n, b) = (Some p, Fin (dr p))"
        "Fin (dr p) < b" "\<forall>c'\<in>set ks. dr p \<le> dr c'"
      | (same) "fold (nearest_step L coord None) ks (n, b) = (n, b)"
        "\<forall>c'\<in>set ks. \<not> Fin (dr c') < b"
      by auto
    then show ?thesis
    proof cases
      case better
      have "dr p \<le> dr c"
        using better(3) False Cons.prems(2) by (auto simp: less_jsnum_def)
      then show ?thesis using better step by auto
    next
      case same
      then show ?thesis using False step by auto
    qed
  qed
qed

lemma search_two_points:
  "kept_candidates ref_lib (Fin 2) (manager_of (1/2) [point_of 0 0, point_of 5 5]) (point_of 1 1) None
     = [point_of 0 0, point_of 5 5]"
  "kept_candidates ref_lib (Fin 2) (manager_of 1 [point_of 0 0, point_of 5 5]) (point_of 1 1) None
     = [point_of 0 0]"
  by (simp_all add: kept_candidates_def index_eval shape_eval jsnum_eval)

lemma distances_from_1_1:
  "distanceTo ref_lib (point_of 1 1) (point_of 0 0) = Fin (sqrt 2)"
  "distanceTo ref_lib (point_of 1 1) (point_of 5 5) = Fin (sqrt 32)"
  by (simp_all add: spec_lib_eval shape_eval jsnum_eval)

text \<open>
  Claim C2, as amended. For every query point, \<open>getNearestNeighbor\<close> searches the index
  within the radius \<open>snapRadius / snapRadiusScale\<close>, leaves out every candidate that
  \<open>isEqual\<close> the optional exclude coordinate, and returns none when no candidate is left,
  and otherwise a remaining candidate of least distance to the query point. (The distances
  of the remaining candidates are taken to be finite numbers.)
\<close>

theorem getNearestNeighbor_closest_kept:
  assumes "\<forall>c\<in>set (kept_candidates L snapRadius this coord excludeCoord).
             distanceTo L coord c = Fin (dr c)"
  shows "kept_candidates L snapRadius this coord excludeCoord =
           filter (\<lambda>c. case excludeCoord of None \<Rightarrow> True | Some e \<Rightarrow> \<not> isEqual L c e)
             (SpatialHash_search (points this) coord (snapRadius / snapRadiusScale this))
       \<and> (kept_candidates L snapRadius this coord excludeCoord = []
            \<longrightarrow> getNearestNeighbor L snapRadius this coord excludeCoord = None)
       \<and> (kept_candidates L snapRadius this coord excludeCoord \<noteq> []
            \<longrightarrow> (\<exists>p\<in>set (kept_candidates L snapRadius this coord excludeCoord).
                   getNearestNeighbor L snapRadius this coord excludeCoord = Some p
                   \<and> (\<forall>c\<in>set (kept_candidates L snapRadius this coord excludeCoord).
                        distanceTo L coord p \<le> distanceTo L coord c)))"
proof -
  define ks where "ks = kept_candidates L snapRadius this coord excludeCoord"
  have fin: "\<forall>c\<in>set ks. distanceTo L coord c = Fin (dr c)"
    using assms by (simp add: ks_def)
  have g: "getNearestNeighbor L snapRadius this coord excludeCoord
           = fst (fold (nearest_step L coord None) ks (None, PInf))"
    unfolding getNearestNeighbor_def kept_candidates_def ks_def Let_def
    by (simp only: nearest_fold_filter [of L coord excludeCoord])
  have inv: "(\<exists>p\<in>set ks. fold (nearest_step L coord None) ks (None, PInf) = (Some p, Fin (dr p))
            \<and> Fin (dr p) < PInf \<and> (\<forall>c\<in>set ks. dr p \<le> dr c))
         \<or> (fold (nearest_step L coord None) ks (None, PInf) = (None, PInf)
             \<and> (\<forall>c\<in>set ks. \<not> Fin (dr c) < PInf))"
    by (rule nearest_fold_min [OF fin]) simp
  have goal: "(ks = [] \<longrightarrow> getNearestNeighbor L snapRadius this coord excludeCoord = None)
       \<and> (ks \<noteq> [] \<longrightarrow> (\<exists>p\<in>set ks. getNearestNeighbor L snapRadius this coord excludeCoord = Some p
                   \<and> (\<forall>c\<in>set ks. distanceTo L coord p \<le> distanceTo L coord c)))"
    using inv
  proof
    assume "\<exists>p\<in>set ks. fold (nearest_step L coord None) ks (None, PInf) = (Some p, Fin (dr p))
            \<and> Fin (dr p) < PInf \<and> (\<forall>c\<in>set ks. dr p \<le> dr c)"
    then obtain p where p: "p \<in> set ks"
      "fold (nearest_step L coord None) ks (None, PInf) = (Some p, Fin (dr p))"
      "\<forall>c\<in>set ks. dr p \<le> dr c" by blast
    have "\<forall>c\<in>set ks. distanceTo L coord p \<le> distanceTo L coord c"
      using p(1,3) fin by (simp add: less_eq_jsnum_def)
    moreover have "getNearestNeighbor L snapRadius this coord excludeCoord = Some p"
      using g p(2) by simp
    moreover have "ks \<noteq> []" using p(1) by auto
    ultimately show ?thesis using p(1) by blast
  next
    assume none: "fold (nearest_step L coord None) ks (None, PInf) = (None, PInf)
                  \<and> (\<forall>c\<in>set ks. \<not> Fin (dr c) < PInf)"
    have "ks = []"
    proof (cases ks)
      case (Cons c cs)
      then have "c \<in> set ks" by simp
      then have "\<not> Fin (dr c) < PInf" using none by blast
      then show ?thesis by (simp add: less_jsnum_def)
    qed simp
    moreover have "getNearestNeighbor L snapRadius this coord excludeCoord = None"
      using g none by simp
    ultimately show ?thesis by simp
  qed
  have "kept_candidates L snapRadius this coord excludeCoord =
           filter (\<lambda>c. case excludeCoord of None \<Rightarrow> True | Some e \<Rightarrow> \<not> isEqual L c e)
             (SpatialHash_search (points this) coord (snapRadius / snapRadiusScale this))"
    by (simp add: kept_candidates_def)
  then show ?thesis using goal unfolding ks_def by (rule conjI)
qed

text \<open>
  The scenario of the claim: against an index that holds exactly (0,0) and (5,5), the query
  for the point (1,1) with radius 2 returns (0,0). With a bucket width of 8 both points are
  candidates, at distances \<open>sqrt 2\<close> and \<open>sqrt 32\<close>; with a bucket width of 4 only (0,0)
  is.
\<close>

theorem getNearestNeighbor_closest_kept_witness:
  "getNearestNeighbor ref_lib (Fin 2) (manager_of (1/2) [point_of 0 0, point_of 5 5]) (point_of 1 1) None
     = Some (point_of 0 0)
   \<and> getNearestNeighbor ref_lib (Fin 2) (manager_of 1 [point_of 0 0, point_of 5 5]) (point_of 1 1) None
     = Some (point_of 0 0)"
proof -
  let ?dr = "\<lambda>c. if c = point_of 0 0 then sqrt 2 else sqrt 32"
  have far: "point_of 5 5 \<noteq> point_of 0 0"
    by (simp add: shape_eval)
  have wide: "getNearestNeighbor ref_lib (Fin 2) (manager_of (1/2) [point_of 0 0, point_of 5 5])
      (point_of 1 1) None = Some (point_of 0 0)"
    using getNearestNeighbor_closest_kept
      [of ref_lib "Fin 2" "manager_of (1/2) [point_of 0 0, point_of 5 5]" "point_of 1 1" None ?dr,
       THEN conjunct2]
    by (simp add: search_two_points distances_from_1_1 far less_eq_jsnum_def)
  have narrow: "getNearestNeighbor ref_lib (Fin 2) (manager_of 1 [point_of 0 0, point_of 5 5])
      (point_of 1 1) None = Some (point_of 0 0)"
    using getNearestNeighbor_closest_kept
      [of ref_lib "Fin 2" "manager_of 1 [point_of 0 0, point_of 5 5]" "point_of 1 1" None ?dr,
       THEN conjunct2]
    by (simp add: search_two_points distances_from_1_1)
  show ?thesis using wide narrow by (intro conjI)
qed

text \<open>
  Claim C2 as stated fails where it says that at most one candidate is excluded. Three
  lines through the origin, tested with the insert flag, put the point (0,0) into the
  index twice; a query near it that excludes (0,0) finds both copies among the candidates,
  leaves both out and returns none, whereas without the exclusion it returns (0,0).
\<close>

theorem getNearestNeighbor_excludes_all_counterexample:
  "fst (testIntersections ref_lib (manager_of 1 []) (line_of (-1) 0 1 0)
          [Some (line_of 0 (-1) 0 1), Some (line_of (-1) (-1) 1 1)] insertFlag)
     = manager_of 1 [point_of 0 0, point_of 0 0]
   \<and> SpatialHash_search (points (manager_of 1 [point_of 0 0, point_of 0 0])) (point_of 1 1)
        (Fin 2 / snapRadiusScale (manager_of 1 [point_of 0 0, point_of 0 0]))
     = [point_of 0 0, point_of 0 0]
   \<and> length (filter (\<lambda>c. isEqual ref_lib c (point_of 0 0))
        (SpatialHash_search (points (manager_of 1 [point_of 0 0, point_of 0 0])) (point_of 1 1)
           (Fin 2 / snapRadiusScale (manager_of 1 [point_of 0 0, point_of 0 0])))) = 2
   \<and> getNearestNeighbor ref_lib (Fin 2) (manager_of 1 [point_of 0 0, point_of 0 0]) (point_of 1 1)
        (Some (point_of 0 0)) = None
   \<and> getNearestNeighbor ref_lib (Fin 2) (manager_of 1 [point_of 0 0, point_of 0 0]) (point_of 1 1)
        None = Some (point_of 0 0)"
proof -
  have build: "fst (testIntersections ref_lib (manager_of 1 []) (line_of (-1) 0 1 0)
          [Some (line_of 0 (-1) 0 1), Some (line_of (-1) (-1) 1 1)] insertFlag)
     = manager_of 1 [point_of 0 0, point_of 0 0]"
    by (simp add: testIntersections_def pair_lines lines_origin_1 lines_origin_2 apply_action_def
          manager_of_def)
  have found: "SpatialHash_search (points (manager_of 1 [point_of 0 0, point_of 0 0])) (point_of 1 1)
        (Fin 2 / snapRadiusScale (manager_of 1 [point_of 0 0, point_of 0 0]))
     = [point_of 0 0, point_of 0 0]"
    by (simp add: index_eval shape_eval jsnum_eval)
  have same: "isEqual ref_lib (point_of 0 0) (point_of 0 0)"
    by (simp add: spec_lib_eval shape_eval jsnum_eval)
  have excluded: "getNearestNeighbor ref_lib (Fin 2) (manager_of 1 [point_of 0 0, point_of 0 0])
      (point_of 1 1) (Some (point_of 0 0)) = None"
    unfolding getNearestNeighbor_def Let_def found by (simp add: nearest_step_def same)
  have included: "getNearestNeighbor ref_lib (Fin 2) (manager_of 1 [point_of 0 0, point_of 0 0])
      (point_of 1 1) None = Some (point_of 0 0)"
    unfolding getNearestNeighbor_def Let_def found
    by (simp add: nearest_step_def distances_from_1_1 less_jsnum_def)
  show ?thesis
    unfolding found using build excluded included by (simp add: same)
qed

section \<open>C3: the order of the two shapes\<close>

lemma str_lt_irrefl: "\<not> str_lt s s"
  by (induction s) simp_all

lemma str_lt_total: "s \<noteq> t \<Longrightarrow> str_lt s t \<or> str_lt t s"
proof (induction s t rule: str_lt.induct)
  case (3 a as b bs)
  show ?case
  proof (cases "a = b")
    case True
    then show ?thesis using 3 by auto
  next
    case False
    then have "(of_char a :: nat) \<noteq> of_char b" by simp
    then have "(of_char a :: nat) < of_char b \<or> (of_char b :: nat) < of_char a" by linarith
    then show ?thesis using False by simp
  qed
qed (auto, (metis list.exhaust str_lt.simps(2))+)

lemma str_lt_asym: "str_lt s t \<Longrightarrow> \<not> str_lt t s"
  by (induction s t rule: str_lt.induct) (auto split: if_splits)

text \<open>
  For two shapes of different types the order does not matter: both calls look up the
  same solver and call it with the same arguments.
\<close>

lemma pair_intersections_swap:
  assumes "shapeName a \<noteq> shapeName b"
  shows "pair_intersections L a b = pair_intersections L b a"
proof (cases "str_lt (shapeName a) (shapeName b)")
  case True
  then have "\<not> str_lt (shapeName b) (shapeName a)" by (rule str_lt_asym)
  then show ?thesis using True by (simp add: pair_intersections_def)
next
  case False
  then have "str_lt (shapeName b) (shapeName a)" using assms str_lt_total by blast
  then show ?thesis using False by (simp add: pair_intersections_def)
qed

text \<open>
  Two arcs of three quarters of a turn, from \<open>-pi/4\<close> to \<open>5*pi/4\<close>: they hold the angles
  0 and \<open>pi\<close>.
\<close>

lemma three_quarter_zero: "spec_angleIsBetweenAngles (Fin 0) (Fin (- (pi / 4))) (Fin (5 * pi / 4))"
proof -
  have t: "(0 - - (pi / 4)) / (2 * pi) = 1 / 8" by simp
  have f: "\<lfloor>1 / 8 :: real\<rfloor> = 0" by simp
  show ?thesis
    by (simp add: spec_angleIsBetweenAngles_def Let_def min_def max_def t f)
qed

lemma three_quarter_pi: "spec_angleIsBetweenAngles (Fin pi) (Fin (- (pi / 4))) (Fin (5 * pi / 4))"
proof -
  have t: "(pi - - (pi / 4)) / (2 * pi) = 5 / 8" by (simp add: field_simps)
  have f: "\<lfloor>5 / 8 :: real\<rfloor> = 0" by simp
  have le: "5 / 8 * (2 * pi) \<le> 3 * pi / 2" by simp
  show ?thesis
    unfolding spec_angleIsBetweenAngles_def Let_def 
    by (simp add: min_def max_def t f)
qed

lemma on_arc_ref_lib:
  assumes "polar_angle (c - a) (d - b) = t"
  shows "Util_angleIsBetweenAngles ref_lib (angleTo ref_lib (center (carc_of a b r s e)) (point_of c d))
           (sa (carc_of a b r s e)) (sa (carc_of a b r s e) + da (carc_of a b r s e))
         = spec_angleIsBetweenAngles (Fin t) (Fin s) (Fin (s + e))"
  using assms by (simp add: ref_lib_def spec_lib_def spec_angleTo_def shape_eval jsnum_eval)

lemma tangent_arcs_hold:
  "on_both_arcs ref_lib (carc_of 1 0 2 (- (pi / 4)) (3 * pi / 2)) (carc_of 0 0 3 (- (pi / 4)) (3 * pi / 2))
     (point_of (-1) 0)"
  "on_both_arcs ref_lib (carc_of 0 0 3 (- (pi / 4)) (3 * pi / 2)) (carc_of 1 0 2 (- (pi / 4)) (3 * pi / 2))
     (point_of 3 0)"
proof -
  have a1: "Util_angleIsBetweenAngles ref_lib
      (angleTo ref_lib (center (carc_of 1 0 2 (- (pi / 4)) (3 * pi / 2))) (point_of (-1) 0))
      (sa (carc_of 1 0 2 (- (pi / 4)) (3 * pi / 2)))
      (sa (carc_of 1 0 2 (- (pi / 4)) (3 * pi / 2)) + da (carc_of 1 0 2 (- (pi / 4)) (3 * pi / 2)))"
    by (subst on_arc_ref_lib [where t = pi]) (simp_all add: polar_angle_def three_quarter_pi)
  have b1: "Util_angleIsBetweenAngles ref_lib
      (angleTo ref_lib (center (carc_of 0 0 3 (- (pi / 4)) (3 * pi / 2))) (point_of (-1) 0))
      (sa (carc_of 0 0 3 (- (pi / 4)) (3 * pi / 2)))
      (sa (carc_of 0 0 3 (- (pi / 4)) (3 * pi / 2)) + da (carc_of 0 0 3 (- (pi / 4)) (3 * pi / 2)))"
    by (subst on_arc_ref_lib [where t = pi]) (simp_all add: polar_angle_def three_quarter_pi)
  have a2: "Util_angleIsBetweenAngles ref_lib
      (angleTo ref_lib (center (carc_of 1 0 2 (- (pi / 4)) (3 * pi / 2))) (point_of 3 0))
      (sa (carc_of 1 0 2 (- (pi / 4)) (3 * pi / 2)))
      (sa (carc_of 1 0 2 (- (pi / 4)) (3 * pi / 2)) + da (carc_of 1 0 2 (- (pi / 4)) (3 * pi / 2)))"
    by (subst on_arc_ref_lib [where t = 0]) (simp_all add: polar_angle_def three_quarter_zero)
  have b2: "Util_angleIsBetweenAngles ref_lib
      (angleTo ref_lib (center (carc_of 0 0 3 (- (pi / 4)) (3 * pi / 2))) (point_of 3 0))
      (sa (carc_of 0 0 3 (- (pi / 4)) (3 * pi / 2)))
      (sa (carc_of 0 0 3 (- (pi / 4)) (3 * pi / 2)) + da (carc_of 0 0 3 (- (pi / 4)) (3 * pi / 2)))"
    by (subst on_arc_ref_lib [where t = 0]) (simp_all add: polar_angle_def three_quarter_zero)
  show "on_both_arcs ref_lib (carc_of 1 0 2 (- (pi / 4)) (3 * pi / 2)) (carc_of 0 0 3 (- (pi / 4)) (3 * pi / 2))
     (point_of (-1) 0)"
    unfolding on_both_arcs_def using a1 b1 by (rule conjI)
  show "on_both_arcs ref_lib (carc_of 0 0 3 (- (pi / 4)) (3 * pi / 2)) (carc_of 1 0 2 (- (pi / 4)) (3 * pi / 2))
     (point_of 3 0)"
    unfolding on_both_arcs_def using b2 a2 by (rule conjI)
qed

lemma tangent_arcs_solutions:
  "carccarc_solutions ref_lib (carc_of 1 0 2 (- (pi / 4)) (3 * pi / 2)) (carc_of 0 0 3 (- (pi / 4)) (3 * pi / 2))
      = [point_of (-1) 0]"
  "carccarc_solutions ref_lib (carc_of 0 0 3 (- (pi / 4)) (3 * pi / 2)) (carc_of 1 0 2 (- (pi / 4)) (3 * pi / 2))
      = [point_of 3 0]"
  by (simp_all add: carccarc_solutions_def Let_def spec_lib_eval shape_eval jsnum_eval)

text \<open>
  Claim C3 fails in the code for two shapes of the same type, for which the solver is
  called with the query shape first. The arc of radius 2 around (1,0) lies inside the arc
  of radius 3 around (0,0) and touches it in (3,0), a point of both arcs. Queried with the
  inner arc first, \<open>testIntersections\<close> returns the point (-1,0), which is at distance 1
  from the center of the outer arc and so not on it; queried with the outer arc first it
  returns (3,0).
\<close>

theorem testIntersections_order_internal_tangency:
  "snd (testIntersections ref_lib (manager_of 1 []) (carc_of 1 0 2 (- (pi / 4)) (3 * pi / 2))
         [Some (carc_of 0 0 3 (- (pi / 4)) (3 * pi / 2))] nopFlag)
     = ([carc_of 0 0 3 (- (pi / 4)) (3 * pi / 2)], [point_of (-1) 0])
   \<and> snd (testIntersections ref_lib (manager_of 1 []) (carc_of 0 0 3 (- (pi / 4)) (3 * pi / 2))
         [Some (carc_of 1 0 2 (- (pi / 4)) (3 * pi / 2))] nopFlag)
     = ([carc_of 1 0 2 (- (pi / 4)) (3 * pi / 2)], [point_of 3 0])
   \<and> distanceTo ref_lib (center (carc_of 0 0 3 (- (pi / 4)) (3 * pi / 2))) (point_of (-1) 0) = Fin 1
   \<and> radius (carc_of 0 0 3 (- (pi / 4)) (3 * pi / 2)) = Fin 3"
proof -
  have off: "distanceTo ref_lib (center (carc_of 0 0 3 (- (pi / 4)) (3 * pi / 2))) (point_of (-1) 0) = Fin 1"
    "radius (carc_of 0 0 3 (- (pi / 4)) (3 * pi / 2)) = Fin 3"
    by (simp_all add: spec_lib_eval shape_eval jsnum_eval)
  have 1: "pair_intersections ref_lib (carc_of 1 0 2 (- (pi / 4)) (3 * pi / 2))
      (carc_of 0 0 3 (- (pi / 4)) (3 * pi / 2)) = [point_of (-1) 0]"
    unfolding pair_carcs isect_carccarc_filter tangent_arcs_solutions
    using tangent_arcs_hold(1) by simp
  have 2: "pair_intersections ref_lib (carc_of 0 0 3 (- (pi / 4)) (3 * pi / 2))
      (carc_of 1 0 2 (- (pi / 4)) (3 * pi / 2)) = [point_of 3 0]"
    unfolding pair_carcs isect_carccarc_filter tangent_arcs_solutions
    using tangent_arcs_hold(2) by simp
  show ?thesis
    unfolding testIntersections_def
    by (simp add: 1 2 off apply_action_def nopFlag_def insertFlag_def deleteFlag_def
          bulkDeleteFlag_def)
qed

end
